theory Spec2Isabelle
  imports Complex_Main "HOL-Library.Multiset"
begin

section \<open>Data model (shared/schema.ts)\<close>

text \<open>
  A JavaScript \<open>Date\<close> and a Postgres \<open>timestamp\<close> are modelled as the number of
  milliseconds since the epoch. Every \<open>new Date()\<close>, \<open>Date.now()\<close> and every
  \<open>DEFAULT now()\<close> of the source is a clock reading that the model takes as an argument,
  so nothing is assumed about the clock (two readings may be equal).
  A JavaScript \<open>number\<close> holding a coordinate is a rational; ids are naturals.
  A nullable column and an optional property are both \<open>option\<close>; where the difference
  between \<open>null\<close> and \<open>undefined\<close> matters to a comparison of the source, the
  comparison is written out (\<open>seq_null_undef\<close>).
\<close>

type_synonym date = nat

record user =
  user_id :: nat
  username :: string
  email :: string
  password :: string
  user_role :: string
  fullName :: string
  phone :: "string option"
  isActive :: "bool option"
  user_createdAt :: "date option"

record vendor =
  vendor_id :: nat
  vendor_userId :: nat
  businessName :: string
  address :: string
  description :: "string option"
  isVerified :: "bool option"

record deliveryPartner =
  partner_id :: nat
  partner_userId :: nat
  vehicleType :: string
  licenseNumber :: "string option"
  rating :: "string option"
  totalDeliveries :: "nat option"
  isOnline :: "bool option"
  currentLatitude :: "rat option"
  currentLongitude :: "rat option"
  lastLocationUpdate :: "date option"

text \<open>
  The decimal columns of an order (total and the four address coordinates) are kept as the
  text drizzle hands over; no claim reads them.
\<close>

record order =
  order_id :: nat
  orderNumber :: string
  customerId :: nat
  order_vendorId :: nat
  order_deliveryPartnerId :: "nat option"
  customerName :: string
  customerPhone :: string
  deliveryAddress :: string
  pickupAddress :: string
  orderTotal :: string
  status :: string
  deliveryLatitude :: "string option"
  deliveryLongitude :: "string option"
  pickupLatitude :: "string option"
  pickupLongitude :: "string option"
  estimatedDeliveryTime :: "date option"
  actualDeliveryTime :: "date option"
  createdAt :: "date option"
  updatedAt :: "date option"

text \<open>
  The \<open>timestamp\<close> column of \<open>location_updates\<close> is nullable in the schema, but
  \<open>insertLocationUpdateSchema\<close> omits it, so every row the program writes gets
  \<open>DEFAULT now()\<close>: the model keeps it as a plain date.
\<close>

record locationUpdate =
  loc_id :: nat
  loc_deliveryPartnerId :: nat
  loc_orderId :: "nat option"
  latitude :: rat
  longitude :: rat
  timestamp :: date

text \<open>\<open>InsertOrder\<close>: an order without id, orderNumber, createdAt and updatedAt.\<close>

record insertOrder =
  new_customerId :: nat
  new_vendorId :: nat
  new_deliveryPartnerId :: "nat option"
  new_customerName :: string
  new_customerPhone :: string
  new_deliveryAddress :: string
  new_pickupAddress :: string
  new_orderTotal :: string
  new_status :: "string option"
  new_deliveryLatitude :: "string option"
  new_deliveryLongitude :: "string option"
  new_pickupLatitude :: "string option"
  new_pickupLongitude :: "string option"
  new_estimatedDeliveryTime :: "date option"
  new_actualDeliveryTime :: "date option"

text \<open>\<open>InsertLocationUpdate\<close>: the coordinates are the numbers whose text is passed.\<close>

record insertLocationUpdate =
  ins_deliveryPartnerId :: nat
  ins_latitude :: rat
  ins_longitude :: rat
  ins_orderId :: "nat option"

text \<open>
  The database: one list of rows per table, in insertion order, and the last value of the
  two \<open>serial\<close> sequences the modelled inserts draw from.
\<close>

record db =
  users :: "user list"
  vendors :: "vendor list"
  deliveryPartners :: "deliveryPartner list"
  orders :: "order list"
  locationUpdates :: "locationUpdate list"
  orders_id_seq :: nat
  location_updates_id_seq :: nat

datatype db_error =
  UniqueViolation
  | ForeignKeyViolation
  | StringTooLong
  | NumericOverflow

section \<open>The row store as the schema declares it\<close>

text \<open>
  A \<open>decimal(p, s)\<close> column rounds the value to \<open>s\<close> fractional digits (ties away from
  zero) and raises "numeric field overflow" unless the rounded value is below
  \<open>10 ^ (p - s)\<close> in absolute value.
\<close>

definition round_half_away :: "rat \<Rightarrow> int" where
  "round_half_away x = (if 0 \<le> x then \<lfloor>x + 1 / 2\<rfloor> else - \<lfloor>- x + 1 / 2\<rfloor>)"

definition pg_decimal :: "nat \<Rightarrow> nat \<Rightarrow> rat \<Rightarrow> db_error + rat" where
  "pg_decimal p s x =
     (let r = round_half_away (x * 10 ^ s)
      in if \<bar>r\<bar> < 10 ^ p then Inr (of_int r / 10 ^ s) else Inl NumericOverflow)"

text \<open>
  \<open>ORDER BY key DESC\<close>: the rows with the greatest key first. SQL leaves the order of
  rows with equal keys open and the queries of the source name no second key, so what the
  engine does with equal keys is an argument: \<open>tie x y\<close> says that \<open>x\<close> is placed ahead of
  \<open>y\<close>. Every query run takes its own.
\<close>

fun insert_desc :: "('a \<Rightarrow> 'a \<Rightarrow> bool) \<Rightarrow> ('a \<Rightarrow> nat) \<Rightarrow> 'a \<Rightarrow> 'a list \<Rightarrow> 'a list" where
  "insert_desc tie k x [] = [x]"
| "insert_desc tie k x (y # ys) =
     (if k y < k x \<or> (k y = k x \<and> tie x y) then x # y # ys
      else y # insert_desc tie k x ys)"

definition order_by_desc :: "('a \<Rightarrow> 'a \<Rightarrow> bool) \<Rightarrow> ('a \<Rightarrow> nat) \<Rightarrow> 'a list \<Rightarrow> 'a list" where
  "order_by_desc tie k xs = foldr (insert_desc tie k) xs []"

text \<open>Two engines: one keeps rows with equal keys in table order, one reverses them.\<close>

definition ties_in_table_order :: "'a \<Rightarrow> 'a \<Rightarrow> bool" where
  "ties_in_table_order x y = True"

definition ties_reversed :: "'a \<Rightarrow> 'a \<Rightarrow> bool" where
  "ties_reversed x y = False"

text \<open>\<open>UPDATE orders SET ... WHERE id = orderId\<close>: one statement, every matching row.\<close>

definition update_orders_where_id :: "nat \<Rightarrow> (order \<Rightarrow> order) \<Rightarrow> db \<Rightarrow> db" where
  "update_orders_where_id orderId f d =
     d\<lparr>orders := map (\<lambda>od. if order_id od = orderId then f od else od) (orders d)\<rparr>"

text \<open>
  The writes on an order as the statements the storage layer sends. The object passed to
  \<open>.set(...)\<close> is a list of column assignments, in the order of its keys; one
  \<open>db.update(orders).set(...).where(eq(orders.id, orderId))\<close> is one statement, and the
  database runs a statement as a whole. Between two statements of one call the database
  is in a state that other connections can read.
\<close>

datatype order_set =
  SetStatus string
  | SetUpdatedAt date
  | SetActualDeliveryTime date
  | SetDeliveryPartnerId nat
  | SetEstimatedDeliveryTime date

fun apply_set :: "order_set \<Rightarrow> order \<Rightarrow> order" where
  "apply_set (SetStatus st) od = od\<lparr>status := st\<rparr>"
| "apply_set (SetUpdatedAt t) od = od\<lparr>updatedAt := Some t\<rparr>"
| "apply_set (SetActualDeliveryTime t) od = od\<lparr>actualDeliveryTime := Some t\<rparr>"
| "apply_set (SetDeliveryPartnerId p) od = od\<lparr>order_deliveryPartnerId := Some p\<rparr>"
| "apply_set (SetEstimatedDeliveryTime t) od = od\<lparr>estimatedDeliveryTime := Some t\<rparr>"

definition apply_sets :: "order_set list \<Rightarrow> order \<Rightarrow> order" where
  "apply_sets sets od = foldl (\<lambda>r a. apply_set a r) od sets"

datatype sql = UpdateOrdersWhereId nat "order_set list"

fun run_sql :: "db \<Rightarrow> sql \<Rightarrow> db" where
  "run_sql d (UpdateOrdersWhereId orderId sets) =
     update_orders_where_id orderId (apply_sets sets) d"

definition run_all :: "db \<Rightarrow> sql list \<Rightarrow> db" where
  "run_all d stmts = foldl run_sql d stmts"

text \<open>
  The states the database goes through while a list of statements runs: the state before,
  and the state after each statement.
\<close>

fun db_states :: "db \<Rightarrow> sql list \<Rightarrow> db list" where
  "db_states d [] = [d]"
| "db_states d (q # qs) = d # db_states (run_sql d q) qs"

text \<open>
  \<open>INSERT INTO orders\<close>: the id comes from the sequence; the statement raises on a
  too long \<open>varchar(20)\<close>, on a duplicate of the \<open>unique\<close> order number and on a
  dangling reference. A failed insert leaves every table as it was (the caller keeps
  the database it had).
\<close>

definition insert_order :: "db \<Rightarrow> order \<Rightarrow> db_error + (order \<times> db)" where
  "insert_order d row =
     (let row' = row\<lparr>order_id := Suc (orders_id_seq d)\<rparr>
      in if 20 < length (orderNumber row') then Inl StringTooLong
         else if orderNumber row' \<in> set (map orderNumber (orders d)) then Inl UniqueViolation
         else if customerId row' \<notin> set (map user_id (users d)) then Inl ForeignKeyViolation
         else if order_vendorId row' \<notin> set (map vendor_id (vendors d)) then Inl ForeignKeyViolation
         else if (case order_deliveryPartnerId row' of
                    None \<Rightarrow> False
                  | Some p \<Rightarrow> p \<notin> set (map partner_id (deliveryPartners d)))
              then Inl ForeignKeyViolation
         else Inr (row', d\<lparr>orders := orders d @ [row'],
                            orders_id_seq := Suc (orders_id_seq d)\<rparr>))"

definition insert_location_update ::
  "db \<Rightarrow> insertLocationUpdate \<Rightarrow> date \<Rightarrow> db_error + (locationUpdate \<times> db)" where
  "insert_location_update d u now =
     (case pg_decimal 10 8 (ins_latitude u) of
        Inl e \<Rightarrow> Inl e
      | Inr lat \<Rightarrow>
         (case pg_decimal 11 8 (ins_longitude u) of
            Inl e \<Rightarrow> Inl e
          | Inr lon \<Rightarrow>
              if ins_deliveryPartnerId u \<notin> set (map partner_id (deliveryPartners d))
              then Inl ForeignKeyViolation
              else if (case ins_orderId u of
                         None \<Rightarrow> False
                       | Some k \<Rightarrow> k \<notin> set (map order_id (orders d)))
              then Inl ForeignKeyViolation
              else
                (let row = \<lparr>loc_id = Suc (location_updates_id_seq d),
                            loc_deliveryPartnerId = ins_deliveryPartnerId u,
                            loc_orderId = ins_orderId u,
                            latitude = lat, longitude = lon, timestamp = now\<rparr>
                 in Inr (row, d\<lparr>locationUpdates := locationUpdates d @ [row],
                                  location_updates_id_seq := Suc (location_updates_id_seq d)\<rparr>))))"

section \<open>DatabaseStorage (server storage)\<close>

text \<open>\<open>const [row] = await db.select()...\<close> takes the first matching row, if any.\<close>

definition getUser :: "db \<Rightarrow> nat \<Rightarrow> user option" where
  "getUser d i = find (\<lambda>u. user_id u = i) (users d)"

definition getVendor :: "db \<Rightarrow> nat \<Rightarrow> vendor option" where
  "getVendor d i = find (\<lambda>v. vendor_id v = i) (vendors d)"

definition getVendorByUserId :: "db \<Rightarrow> nat \<Rightarrow> vendor option" where
  "getVendorByUserId d uid = find (\<lambda>v. vendor_userId v = uid) (vendors d)"

definition getDeliveryPartner :: "db \<Rightarrow> nat \<Rightarrow> deliveryPartner option" where
  "getDeliveryPartner d i = find (\<lambda>p. partner_id p = i) (deliveryPartners d)"

definition getDeliveryPartnerByUserId :: "db \<Rightarrow> nat \<Rightarrow> deliveryPartner option" where
  "getDeliveryPartnerByUserId d uid = find (\<lambda>p. partner_userId p = uid) (deliveryPartners d)"

definition getOrder :: "db \<Rightarrow> nat \<Rightarrow> order option" where
  "getOrder d i = find (\<lambda>od. order_id od = i) (orders d)"

definition getOrderByNumber :: "db \<Rightarrow> string \<Rightarrow> order option" where
  "getOrderByNumber d n = find (\<lambda>od. orderNumber od = n) (orders d)"

text \<open>
  \<open>updateDeliveryPartnerLocation\<close>: the two coordinates go into \<open>decimal(10, 8)\<close> and
  \<open>decimal(11, 8)\<close> columns; \<open>now\<close> is its \<open>new Date()\<close>.
\<close>

definition updateDeliveryPartnerLocation ::
  "db \<Rightarrow> nat \<Rightarrow> rat \<Rightarrow> rat \<Rightarrow> date \<Rightarrow> db_error + db" where
  "updateDeliveryPartnerLocation d partnerId lat lon now =
     (case pg_decimal 10 8 lat of
        Inl e \<Rightarrow> Inl e
      | Inr la \<Rightarrow>
         (case pg_decimal 11 8 lon of
            Inl e \<Rightarrow> Inl e
          | Inr lo \<Rightarrow>
              Inr (d\<lparr>deliveryPartners :=
                   map (\<lambda>p. if partner_id p = partnerId
                             then p\<lparr>currentLatitude := Some la, currentLongitude := Some lo,
                                    lastLocationUpdate := Some now\<rparr>
                             else p)
                       (deliveryPartners d)\<rparr>)))"

definition updateDeliveryPartnerStatus :: "db \<Rightarrow> nat \<Rightarrow> bool \<Rightarrow> db" where
  "updateDeliveryPartnerStatus d partnerId online =
     d\<lparr>deliveryPartners :=
         map (\<lambda>p. if partner_id p = partnerId then p\<lparr>isOnline := Some online\<rparr> else p)
             (deliveryPartners d)\<rparr>"

text \<open>
  The decimal text of \<open>Date.now()\<close> in the template literal \<open>`ORD-${Date.now()}`\<close>.
\<close>

definition digit_char :: "nat \<Rightarrow> char" where
  "digit_char n = ''0123456789'' ! n"

function show_nat :: "nat \<Rightarrow> string" where
  "show_nat n = (if n < 10 then [digit_char n] else show_nat (n div 10) @ [digit_char (n mod 10)])"
  by pat_completeness auto
termination
  by (relation "measure (\<lambda>n. n)") auto

declare show_nat.simps [simp del]

text \<open>
  \<open>createOrder\<close>: \<open>now_ms\<close> is \<open>Date.now()\<close>, \<open>t_upd\<close> the \<open>new Date()\<close> of
  \<open>updatedAt\<close>, \<open>t_db\<close> the database's \<open>now()\<close> for \<open>created_at\<close>. A missing
  status gets the column default.
\<close>

definition createOrder ::
  "db \<Rightarrow> insertOrder \<Rightarrow> date \<Rightarrow> date \<Rightarrow> date \<Rightarrow> db_error + (order \<times> db)" where
  "createOrder d ins now_ms t_upd t_db =
     insert_order d
       \<lparr>order_id = 0,
        orderNumber = ''ORD-'' @ show_nat now_ms,
        customerId = new_customerId ins,
        order_vendorId = new_vendorId ins,
        order_deliveryPartnerId = new_deliveryPartnerId ins,
        customerName = new_customerName ins,
        customerPhone = new_customerPhone ins,
        deliveryAddress = new_deliveryAddress ins,
        pickupAddress = new_pickupAddress ins,
        orderTotal = new_orderTotal ins,
        status = (case new_status ins of None \<Rightarrow> ''pending'' | Some s \<Rightarrow> s),
        deliveryLatitude = new_deliveryLatitude ins,
        deliveryLongitude = new_deliveryLongitude ins,
        pickupLatitude = new_pickupLatitude ins,
        pickupLongitude = new_pickupLongitude ins,
        estimatedDeliveryTime = new_estimatedDeliveryTime ins,
        actualDeliveryTime = new_actualDeliveryTime ins,
        createdAt = Some t_db,
        updatedAt = Some t_upd\<rparr>"

text \<open>
  \<open>updateOrderStatus\<close>: \<open>updateData\<close> is built first (\<open>t_upd\<close> and \<open>t_del\<close> are its two
  \<open>new Date()\<close>; \<open>actualDeliveryTime\<close> is added to it for the status delivered), then the
  method sends its statements.
\<close>

definition updateData :: "string \<Rightarrow> date \<Rightarrow> date \<Rightarrow> order_set list" where
  "updateData st t_upd t_del =
     [SetStatus st, SetUpdatedAt t_upd] @
     (if st = ''delivered'' then [SetActualDeliveryTime t_del] else [])"

definition updateOrderStatus_sql :: "nat \<Rightarrow> string \<Rightarrow> date \<Rightarrow> date \<Rightarrow> sql list" where
  "updateOrderStatus_sql orderId st t_upd t_del =
     [UpdateOrdersWhereId orderId (updateData st t_upd t_del)]"

definition updateOrderStatus :: "db \<Rightarrow> nat \<Rightarrow> string \<Rightarrow> date \<Rightarrow> date \<Rightarrow> db" where
  "updateOrderStatus d orderId st t_upd t_del =
     run_all d (updateOrderStatus_sql orderId st t_upd t_del)"

text \<open>
  \<open>assignDeliveryPartner\<close>: \<open>t_est\<close> is the \<open>new Date()\<close> the estimate starts from
  (30 minutes are added; the local-time arithmetic of \<open>setMinutes\<close> is taken as plain
  addition), \<open>t_upd\<close> the one of \<open>updatedAt\<close>.
\<close>

definition assignDeliveryPartner_sql :: "nat \<Rightarrow> nat \<Rightarrow> date \<Rightarrow> date \<Rightarrow> sql list" where
  "assignDeliveryPartner_sql orderId partnerId t_est t_upd =
     [UpdateOrdersWhereId orderId
        [SetDeliveryPartnerId partnerId,
         SetStatus ''assigned'',
         SetEstimatedDeliveryTime (t_est + 30 * 60 * 1000),
         SetUpdatedAt t_upd]]"

definition assignDeliveryPartner :: "db \<Rightarrow> nat \<Rightarrow> nat \<Rightarrow> date \<Rightarrow> date \<Rightarrow> db" where
  "assignDeliveryPartner d orderId partnerId t_est t_upd =
     run_all d (assignDeliveryPartner_sql orderId partnerId t_est t_upd)"

text \<open>\<open>createLocationUpdate\<close>: \<open>now\<close> is the database's \<open>now()\<close> for the timestamp.\<close>

definition createLocationUpdate ::
  "db \<Rightarrow> insertLocationUpdate \<Rightarrow> date \<Rightarrow> db_error + (locationUpdate \<times> db)" where
  "createLocationUpdate d u now = insert_location_update d u now"

text \<open>
  \<open>getLatestLocationForPartner\<close>: a query of its own; \<open>.limit(1)\<close> keeps the first row
  of its ordered result.
\<close>

definition getLatestLocationForPartner ::
  "db \<Rightarrow> (locationUpdate \<Rightarrow> locationUpdate \<Rightarrow> bool) \<Rightarrow> nat \<Rightarrow> locationUpdate option" where
  "getLatestLocationForPartner d tie partnerId =
     (case take 1 (order_by_desc tie timestamp
                     (filter (\<lambda>u. loc_deliveryPartnerId u = partnerId) (locationUpdates d))) of
        [] \<Rightarrow> None
      | u # _ \<Rightarrow> Some u)"

text \<open>
  \<open>getLocationHistory\<close>: \<open>if (orderId)\<close> is JavaScript truthiness, so the filter on
  the order is added only for an id that is given and is not 0.
\<close>

definition history_conditions :: "nat \<Rightarrow> nat option \<Rightarrow> (locationUpdate \<Rightarrow> bool) list" where
  "history_conditions partnerId orderId =
     [\<lambda>u. loc_deliveryPartnerId u = partnerId] @
     (case orderId of
        None \<Rightarrow> []
      | Some k \<Rightarrow> if k \<noteq> 0 then [\<lambda>u. loc_orderId u = Some k] else [])"

definition getLocationHistory ::
  "db \<Rightarrow> (locationUpdate \<Rightarrow> locationUpdate \<Rightarrow> bool) \<Rightarrow> nat \<Rightarrow> nat option \<Rightarrow>
     locationUpdate list" where
  "getLocationHistory d tie partnerId orderId =
     order_by_desc tie timestamp
       (filter (\<lambda>u. list_all (\<lambda>c. c u) (history_conditions partnerId orderId))
          (locationUpdates d))"

section \<open>Request handlers (server routes)\<close>

text \<open>
  \<open>req.user\<close> and \<open>socket.data.user\<close>: \<open>vendorId\<close> and \<open>deliveryPartnerId\<close> are
  optional properties, \<open>None\<close> when the property was never set (\<open>undefined\<close>).
\<close>

record req_user =
  ru_id :: nat
  ru_username :: string
  ru_role :: string
  vendorId :: "nat option"
  deliveryPartnerId :: "nat option"

text \<open>
  The credential, as \<open>jwt.verify\<close> sees it: absent, rejected, or verified with the
  \<open>userId\<close> it carries.
\<close>

datatype token = NoToken | BadToken | Token nat

text \<open>
  A response: \<open>res.status(c).json({message})\<close>; a zod parse error and a storage error
  caught by a handler that answers with \<open>error.message\<close> are kept apart from the fixed
  messages. \<open>res.json\<close> without \<open>status\<close> is 200.
\<close>

datatype response = Json nat string | ZodError | DbError db_error

fun status_code :: "response \<Rightarrow> nat" where
  "status_code (Json c m) = c"
| "status_code ZodError = 400"
| "status_code (DbError e) = 400"

definition authenticateToken :: "db \<Rightarrow> token \<Rightarrow> response + req_user" where
  "authenticateToken d tok =
     (case tok of
        NoToken \<Rightarrow> Inl (Json 401 ''Access token required'')
      | BadToken \<Rightarrow> Inl (Json 403 ''Invalid token'')
      | Token uid \<Rightarrow>
         (case getUser d uid of
            None \<Rightarrow> Inl (Json 401 ''Invalid or inactive user'')
          | Some u \<Rightarrow>
              if isActive u \<noteq> Some True then Inl (Json 401 ''Invalid or inactive user'')
              else
               (let ru = \<lparr>ru_id = user_id u, ru_username = username u, ru_role = user_role u,
                          vendorId = None, deliveryPartnerId = None\<rparr>
                in if user_role u = ''vendor'' then
                     (case getVendorByUserId d (user_id u) of
                        None \<Rightarrow> Inr ru
                      | Some v \<Rightarrow> Inr (ru\<lparr>vendorId := Some (vendor_id v)\<rparr>))
                   else if user_role u = ''delivery'' then
                     (case getDeliveryPartnerByUserId d (user_id u) of
                        None \<Rightarrow> Inr ru
                      | Some p \<Rightarrow> Inr (ru\<lparr>deliveryPartnerId := Some (partner_id p)\<rparr>))
                   else Inr ru)))"

definition requireRole :: "string list \<Rightarrow> req_user \<Rightarrow> response + req_user" where
  "requireRole roles u =
     (if ru_role u \<notin> set roles then Inl (Json 403 ''Insufficient permissions'') else Inr u)"

text \<open>
  \<open>a === b\<close> for \<open>a\<close> a nullable column (\<open>number | null\<close>) and \<open>b\<close> an optional
  property (\<open>number | undefined\<close>): \<open>null === undefined\<close> is false.
\<close>

definition seq_null_undef :: "nat option \<Rightarrow> nat option \<Rightarrow> bool" where
  "seq_null_undef a b = (case (a, b) of (Some x, Some y) \<Rightarrow> x = y | _ \<Rightarrow> False)"

definition canUpdate :: "req_user \<Rightarrow> order \<Rightarrow> bool" where
  "canUpdate u od =
     ((ru_role u = ''vendor'' \<and> Some (order_vendorId od) = vendorId u) \<or>
      (ru_role u = ''delivery'' \<and>
         seq_null_undef (order_deliveryPartnerId od) (deliveryPartnerId u)))"

definition updateOrderStatusSchema :: "string list" where
  "updateOrderStatusSchema =
     [''pending'', ''assigned'', ''picked_up'', ''in_transit'', ''delivered'', ''cancelled'']"

text \<open>
  \<open>PATCH /api/orders/:id/status\<close>. \<open>orderId\<close> is \<open>parseInt(req.params.id)\<close>,
  \<open>body_status\<close> the \<open>status\<close> of the body.
\<close>

definition patch_order_status ::
  "db \<Rightarrow> token \<Rightarrow> string \<Rightarrow> nat \<Rightarrow> date \<Rightarrow> date \<Rightarrow> response \<times> db" where
  "patch_order_status d tok body_status orderId t_upd t_del =
     (case authenticateToken d tok of
        Inl r \<Rightarrow> (r, d)
      | Inr u \<Rightarrow>
          if body_status \<notin> set updateOrderStatusSchema then (ZodError, d)
          else
           (case getOrder d orderId of
              None \<Rightarrow> (Json 404 ''Order not found'', d)
            | Some od \<Rightarrow>
                if \<not> canUpdate u od then (Json 403 ''Unauthorized'', d)
                else (Json 200 ''Order status updated'',
                      updateOrderStatus d orderId body_status t_upd t_del)))"

text \<open>
  \<open>PATCH /api/orders/:id/assign\<close>, after the two middlewares: the handler's body.
\<close>

definition assign_body ::
  "db \<Rightarrow> req_user \<Rightarrow> nat \<Rightarrow> nat \<Rightarrow> date \<Rightarrow> date \<Rightarrow> response \<times> db" where
  "assign_body d u orderId partnerId t_est t_upd =
     (case getOrder d orderId of
        None \<Rightarrow> (Json 404 ''Order not found'', d)
      | Some od \<Rightarrow>
          if Some (order_vendorId od) \<noteq> vendorId u then (Json 403 ''Unauthorized'', d)
          else
           (case getDeliveryPartner d partnerId of
              None \<Rightarrow> (Json 400 ''Delivery partner not available'', d)
            | Some p \<Rightarrow>
                if isOnline p \<noteq> Some True then (Json 400 ''Delivery partner not available'', d)
                else (Json 200 ''Delivery partner assigned'',
                      assignDeliveryPartner d orderId partnerId t_est t_upd)))"

definition patch_order_assign ::
  "db \<Rightarrow> token \<Rightarrow> nat \<Rightarrow> nat \<Rightarrow> date \<Rightarrow> date \<Rightarrow> response \<times> db" where
  "patch_order_assign d tok orderId partnerId t_est t_upd =
     (case authenticateToken d tok of
        Inl r \<Rightarrow> (r, d)
      | Inr u \<Rightarrow>
         (case requireRole [''vendor''] u of
            Inl r \<Rightarrow> (r, d)
          | Inr u' \<Rightarrow> assign_body d u' orderId partnerId t_est t_upd))"

text \<open>
  \<open>POST /api/location/update\<close>. \<open>if (!req.user.deliveryPartnerId)\<close> is truthiness: a
  missing id and the id 0 are both refused. A storage error is caught and answered with
  400; the partner row written before it stays written.
\<close>

definition updateLocationSchema :: "rat \<Rightarrow> rat \<Rightarrow> bool" where
  "updateLocationSchema lat lon \<longleftrightarrow> - 90 \<le> lat \<and> lat \<le> 90 \<and> - 180 \<le> lon \<and> lon \<le> 180"

definition post_location_update ::
  "db \<Rightarrow> token \<Rightarrow> rat \<Rightarrow> rat \<Rightarrow> nat option \<Rightarrow> date \<Rightarrow> date \<Rightarrow> response \<times> db" where
  "post_location_update d tok lat lon orderId t_loc t_db =
     (case authenticateToken d tok of
        Inl r \<Rightarrow> (r, d)
      | Inr u \<Rightarrow>
         (case requireRole [''delivery''] u of
            Inl r \<Rightarrow> (r, d)
          | Inr u' \<Rightarrow>
              if \<not> updateLocationSchema lat lon then (ZodError, d)
              else
               (case deliveryPartnerId u' of
                  None \<Rightarrow> (Json 400 ''Delivery partner profile not found'', d)
                | Some pid \<Rightarrow>
                    if pid = 0 then (Json 400 ''Delivery partner profile not found'', d)
                    else
                     (case updateDeliveryPartnerLocation d pid lat lon t_loc of
                        Inl e \<Rightarrow> (DbError e, d)
                      | Inr d1 \<Rightarrow>
                         (case createLocationUpdate d1
                                 \<lparr>ins_deliveryPartnerId = pid, ins_latitude = lat,
                                  ins_longitude = lon, ins_orderId = orderId\<rparr> t_db of
                            Inl e \<Rightarrow> (DbError e, d1)
                          | Inr (row, d2) \<Rightarrow> (Json 200 ''Location updated'', d2))))))"

section \<open>Socket handlers\<close>

datatype event =
  DeliveryLocationUpdate nat rat rat date
  | OrderStatusChanged nat string date
  | LocationUpdateSuccess
  | LocationUpdateError string
  | OrderStatusUpdateSuccess
  | OrderStatusUpdateError string

text \<open>\<open>io.to(room).emit(...)\<close> and \<open>socket.emit(...)\<close>, in the order they are issued.\<close>

datatype emit = ToRoom string event | ToSocket event

definition user_room :: "nat \<Rightarrow> string" where
  "user_room i = ''user_'' @ show_nat i"

text \<open>
  The \<open>io.use\<close> middleware: it sets \<open>id\<close>, \<open>username\<close> and \<open>role\<close> on
  \<open>socket.data.user\<close> and nothing else.
\<close>

definition io_use :: "db \<Rightarrow> token \<Rightarrow> string + req_user" where
  "io_use d tok =
     (case tok of
        NoToken \<Rightarrow> Inl ''Authentication error''
      | BadToken \<Rightarrow> Inl ''Authentication error''
      | Token uid \<Rightarrow>
         (case getUser d uid of
            None \<Rightarrow> Inl ''Invalid user''
          | Some u \<Rightarrow>
              if isActive u \<noteq> Some True then Inl ''Invalid user''
              else Inr \<lparr>ru_id = user_id u, ru_username = username u, ru_role = user_role u,
                        vendorId = None, deliveryPartnerId = None\<rparr>))"

record status_data =
  sd_orderId :: nat
  sd_status :: string

record location_data =
  ld_latitude :: rat
  ld_longitude :: rat
  ld_orderId :: "nat option"

text \<open>
  \<open>socket.on('order_status_update', ...)\<close>. The payload is \<open>None\<close> when the event comes
  without one: the destructuring then throws inside the \<open>try\<close>. \<open>clk k\<close> is the
  \<open>k\<close>-th \<open>new Date()\<close> of the run. \<open>if (order.deliveryPartnerId)\<close> is truthiness.
\<close>

definition on_order_status_update ::
  "db \<Rightarrow> req_user \<Rightarrow> status_data option \<Rightarrow> (nat \<Rightarrow> date) \<Rightarrow> db \<times> emit list" where
  "on_order_status_update d u data clk =
     (case data of
        None \<Rightarrow> (d, [ToSocket (OrderStatusUpdateError ''Failed to update order status'')])
      | Some dt \<Rightarrow>
         (case getOrder d (sd_orderId dt) of
            None \<Rightarrow> (d, [])
          | Some od \<Rightarrow>
              if \<not> canUpdate u od then (d, [])
              else
               (let d' = updateOrderStatus d (sd_orderId dt) (sd_status dt) (clk 0) (clk 1)
                in (d',
                    [ToRoom (user_room (customerId od))
                       (OrderStatusChanged (sd_orderId dt) (sd_status dt) (clk 2))] @
                    (case getVendor d' (order_vendorId od) of
                       None \<Rightarrow> []
                     | Some v \<Rightarrow>
                         [ToRoom (user_room (vendor_userId v))
                            (OrderStatusChanged (sd_orderId dt) (sd_status dt) (clk 3))]) @
                    (case order_deliveryPartnerId od of
                       None \<Rightarrow> []
                     | Some pid \<Rightarrow>
                         if pid = 0 then []
                         else
                          (case getDeliveryPartner d' pid of
                             None \<Rightarrow> []
                           | Some p \<Rightarrow>
                               [ToRoom (user_room (partner_userId p))
                                  (OrderStatusChanged (sd_orderId dt) (sd_status dt) (clk 4))])) @
                    [ToSocket OrderStatusUpdateSuccess]))))"

text \<open>
  \<open>socket.on('location_update', ...)\<close> is registered for the role \<open>delivery\<close> only;
  for any other role the event has no listener. The coordinates are used as received.
\<close>

definition location_broadcast :: "db \<Rightarrow> location_data \<Rightarrow> (nat \<Rightarrow> date) \<Rightarrow> emit list" where
  "location_broadcast d dt clk =
     (case ld_orderId dt of
        None \<Rightarrow> []
      | Some k \<Rightarrow>
          if k = 0 then []
          else
           (case getOrder d k of
              None \<Rightarrow> []
            | Some od \<Rightarrow>
                [ToRoom (user_room (customerId od))
                   (DeliveryLocationUpdate k (ld_latitude dt) (ld_longitude dt) (clk 2))] @
                (case getVendor d (order_vendorId od) of
                   None \<Rightarrow> []
                 | Some v \<Rightarrow>
                     [ToRoom (user_room (vendor_userId v))
                        (DeliveryLocationUpdate k (ld_latitude dt) (ld_longitude dt) (clk 3))])))"

definition on_location_update ::
  "db \<Rightarrow> req_user \<Rightarrow> location_data option \<Rightarrow> (nat \<Rightarrow> date) \<Rightarrow> db \<times> emit list" where
  "on_location_update d u data clk =
     (if ru_role u \<noteq> ''delivery'' then (d, [])
      else
       (case data of
          None \<Rightarrow> (d, [ToSocket (LocationUpdateError ''Failed to update location'')])
        | Some dt \<Rightarrow>
           (case getDeliveryPartnerByUserId d (ru_id u) of
              None \<Rightarrow> (d, [])
            | Some p \<Rightarrow>
               (case updateDeliveryPartnerLocation d (partner_id p)
                       (ld_latitude dt) (ld_longitude dt) (clk 0) of
                  Inl e \<Rightarrow> (d, [ToSocket (LocationUpdateError ''Failed to update location'')])
                | Inr d1 \<Rightarrow>
                   (case createLocationUpdate d1
                           \<lparr>ins_deliveryPartnerId = partner_id p,
                            ins_latitude = ld_latitude dt, ins_longitude = ld_longitude dt,
                            ins_orderId = ld_orderId dt\<rparr> (clk 1) of
                      Inl e \<Rightarrow>
                        (d1, [ToSocket (LocationUpdateError ''Failed to update location'')])
                    | Inr (row, d2) \<Rightarrow>
                        (d2, location_broadcast d2 dt clk @ [ToSocket LocationUpdateSuccess]))))))"

section \<open>Two assign requests in flight\<close>

text \<open>
  The assign handler awaits three storage calls: \<open>getOrder\<close>, \<open>getDeliveryPartner\<close> and
  \<open>assignDeliveryPartner\<close>. Requests of different connections interleave at these
  awaits, so a request in flight is at one of four points, and one step runs one storage
  call together with the synchronous code that follows it.
\<close>

datatype assign_pc = AssignStart | OrderChecked | PartnerChecked | AssignDone response

record assign_req =
  ar_user :: req_user
  ar_orderId :: nat
  ar_partnerId :: nat
  ar_t_est :: date
  ar_t_upd :: date

definition assign_step :: "assign_req \<Rightarrow> assign_pc \<Rightarrow> db \<Rightarrow> assign_pc \<times> db" where
  "assign_step a pc d =
     (case pc of
        AssignStart \<Rightarrow>
         (case getOrder d (ar_orderId a) of
            None \<Rightarrow> (AssignDone (Json 404 ''Order not found''), d)
          | Some od \<Rightarrow>
              if Some (order_vendorId od) \<noteq> vendorId (ar_user a)
              then (AssignDone (Json 403 ''Unauthorized''), d)
              else (OrderChecked, d))
      | OrderChecked \<Rightarrow>
         (case getDeliveryPartner d (ar_partnerId a) of
            None \<Rightarrow> (AssignDone (Json 400 ''Delivery partner not available''), d)
          | Some p \<Rightarrow>
              if isOnline p \<noteq> Some True
              then (AssignDone (Json 400 ''Delivery partner not available''), d)
              else (PartnerChecked, d))
      | PartnerChecked \<Rightarrow>
          (AssignDone (Json 200 ''Delivery partner assigned''),
           assignDeliveryPartner d (ar_orderId a) (ar_partnerId a) (ar_t_est a) (ar_t_upd a))
      | AssignDone r \<Rightarrow> (AssignDone r, d))"

text \<open>
  A schedule says which of two requests takes the next step (\<open>True\<close>: the first).
\<close>

fun run_race ::
  "assign_req \<Rightarrow> assign_req \<Rightarrow> bool list \<Rightarrow> assign_pc \<times> assign_pc \<times> db \<Rightarrow>
     assign_pc \<times> assign_pc \<times> db" where
  "run_race a b [] s = s"
| "run_race a b (x # xs) (pa, pb, d) =
     (if x then (case assign_step a pa d of (pa', d') \<Rightarrow> run_race a b xs (pa', pb, d'))
      else (case assign_step b pb d of (pb', d') \<Rightarrow> run_race a b xs (pa, pb', d')))"

fun steps_left :: "assign_pc \<Rightarrow> nat" where
  "steps_left AssignStart = 3"
| "steps_left OrderChecked = 2"
| "steps_left PartnerChecked = 1"
| "steps_left (AssignDone r) = 0"

section \<open>Sequences of storage writes\<close>

text \<open>
  The writes of \<open>IStorage\<close> on orders, partners and location samples, with the clock
  readings each one takes. A write that raises leaves the database as it was.
\<close>

datatype storage_op =
  CreateOrder insertOrder date date date
  | UpdateOrderStatus nat string date date
  | AssignDeliveryPartner nat nat date date
  | UpdateDeliveryPartnerLocation nat rat rat date
  | UpdateDeliveryPartnerStatus nat bool
  | CreateLocationUpdate insertLocationUpdate date

fun apply_op :: "db \<Rightarrow> storage_op \<Rightarrow> db" where
  "apply_op d (CreateOrder ins now_ms t_upd t_db) =
     (case createOrder d ins now_ms t_upd t_db of Inl e \<Rightarrow> d | Inr (row, d') \<Rightarrow> d')"
| "apply_op d (UpdateOrderStatus i st t_upd t_del) = updateOrderStatus d i st t_upd t_del"
| "apply_op d (AssignDeliveryPartner i p t_est t_upd) = assignDeliveryPartner d i p t_est t_upd"
| "apply_op d (UpdateDeliveryPartnerLocation p lat lon now) =
     (case updateDeliveryPartnerLocation d p lat lon now of Inl e \<Rightarrow> d | Inr d' \<Rightarrow> d')"
| "apply_op d (UpdateDeliveryPartnerStatus p online) = updateDeliveryPartnerStatus d p online"
| "apply_op d (CreateLocationUpdate u now) =
     (case createLocationUpdate d u now of Inl e \<Rightarrow> d | Inr (row, d') \<Rightarrow> d')"

definition exec :: "db \<Rightarrow> storage_op list \<Rightarrow> db" where
  "exec d ops = foldl apply_op d ops"

text \<open>
  What holds of two requests for one order while they run, used to follow a schedule:
  the order is there and belongs to both callers, both partners are online, neither
  request has failed, and once either has written the order is assigned to one of the
  two partners.
\<close>

definition race_inv :: "assign_req \<Rightarrow> assign_req \<Rightarrow> assign_pc \<times> assign_pc \<times> db \<Rightarrow> bool" where
  "race_inv a b s =
     (case s of (pa, pb, d) \<Rightarrow>
        (case getOrder d (ar_orderId a) of
           None \<Rightarrow> False
         | Some od \<Rightarrow>
             Some (order_vendorId od) = vendorId (ar_user a) \<and>
             Some (order_vendorId od) = vendorId (ar_user b) \<and>
             (if steps_left pa = 0 \<or> steps_left pb = 0
              then status od = ''assigned'' \<and>
                   order_deliveryPartnerId od \<in> {Some (ar_partnerId a), Some (ar_partnerId b)}
              else True)) \<and>
        (case getDeliveryPartner d (ar_partnerId a) of
           None \<Rightarrow> False | Some p \<Rightarrow> isOnline p = Some True) \<and>
        (case getDeliveryPartner d (ar_partnerId b) of
           None \<Rightarrow> False | Some p \<Rightarrow> isOnline p = Some True) \<and>
        pa \<in> {AssignStart, OrderChecked, PartnerChecked,
               AssignDone (Json 200 ''Delivery partner assigned'')} \<and>
        pb \<in> {AssignStart, OrderChecked, PartnerChecked,
               AssignDone (Json 200 ''Delivery partner assigned'')})"

text \<open>
  What holds of the orders table after any sequence of writes that starts without
  orders: order numbers are pairwise different and not empty, ids are pairwise different
  and none is beyond the sequence.
\<close>

definition orders_inv :: "db \<Rightarrow> bool" where
  "orders_inv d \<longleftrightarrow>
     distinct (map orderNumber (orders d)) \<and>
     [] \<notin> set (map orderNumber (orders d)) \<and>
     distinct (map order_id (orders d)) \<and>
     list_all (\<lambda>od. order_id od \<le> orders_id_seq d) (orders d)"

text \<open>
  The samples of a partner that no other sample of the partner is newer than. This is not
  code of the program: it states when the newest sample is a single row.
\<close>

definition greatest_samples :: "db \<Rightarrow> nat \<Rightarrow> locationUpdate list" where
  "greatest_samples d p =
     filter (\<lambda>u. list_all (\<lambda>v. timestamp v \<le> timestamp u)
                   (filter (\<lambda>v. loc_deliveryPartnerId v = p) (locationUpdates d)))
       (filter (\<lambda>u. loc_deliveryPartnerId u = p) (locationUpdates d))"

section \<open>A small database for concrete runs\<close>

text \<open>
  User 1 is a vendor with vendor profile 1; users 2 and 3 are delivery partners with
  profiles 1 and 2, both online; user 5 is a delivery partner with profile 3, offline;
  user 4 is a customer. Order 1 belongs to vendor 1 and customer 4; its status and
  partner are parameters.
\<close>

definition ex_user :: "nat \<Rightarrow> string \<Rightarrow> user" where
  "ex_user i r =
     \<lparr>user_id = i, username = ''user'' @ [digit_char i],
      email = ''user'' @ [digit_char i] @ ''@example.org'',
      password = ''$2a$10$hash'', user_role = r, fullName = ''User'', phone = None,
      isActive = Some True, user_createdAt = Some 1000\<rparr>"

definition ex_vendor :: vendor where
  "ex_vendor =
     \<lparr>vendor_id = 1, vendor_userId = 1, businessName = ''Shop'', address = ''1 Main St'',
      description = None, isVerified = Some False\<rparr>"

definition ex_partner :: "nat \<Rightarrow> nat \<Rightarrow> bool \<Rightarrow> deliveryPartner" where
  "ex_partner i uid online =
     \<lparr>partner_id = i, partner_userId = uid, vehicleType = ''bicycle'', licenseNumber = None,
      rating = Some ''0.00'', totalDeliveries = Some 0, isOnline = Some online,
      currentLatitude = None, currentLongitude = None, lastLocationUpdate = None\<rparr>"

definition ex_order :: "string \<Rightarrow> nat option \<Rightarrow> order" where
  "ex_order st pid =
     \<lparr>order_id = 1, orderNumber = ''ORD-1700000000000'', customerId = 4, order_vendorId = 1,
      order_deliveryPartnerId = pid, customerName = ''Ann'', customerPhone = ''555'',
      deliveryAddress = ''2 Side St'', pickupAddress = ''1 Main St'', orderTotal = ''10.00'',
      status = st, deliveryLatitude = None, deliveryLongitude = None, pickupLatitude = None,
      pickupLongitude = None, estimatedDeliveryTime = None, actualDeliveryTime = None,
      createdAt = Some 2000, updatedAt = Some 2000\<rparr>"

definition ex_db :: "string \<Rightarrow> nat option \<Rightarrow> db" where
  "ex_db st pid =
     \<lparr>users = [ex_user 1 ''vendor'', ex_user 2 ''delivery'', ex_user 3 ''delivery'',
               ex_user 4 ''customer'', ex_user 5 ''delivery''],
      vendors = [ex_vendor],
      deliveryPartners = [ex_partner 1 2 True, ex_partner 2 3 True, ex_partner 3 5 False],
      orders = [ex_order st pid],
      locationUpdates = [],
      orders_id_seq = 1,
      location_updates_id_seq = 0\<rparr>"

text \<open>What \<open>authenticateToken\<close> makes of user 1, and an assign request of that vendor.\<close>

definition ex_vendor_user :: req_user where
  "ex_vendor_user =
     \<lparr>ru_id = 1, ru_username = ''user1'', ru_role = ''vendor'', vendorId = Some 1,
      deliveryPartnerId = None\<rparr>"

definition ex_assign :: "nat \<Rightarrow> date \<Rightarrow> assign_req" where
  "ex_assign p t =
     \<lparr>ar_user = ex_vendor_user, ar_orderId = 1, ar_partnerId = p, ar_t_est = t,
      ar_t_upd = t + 1\<rparr>"

text \<open>What \<open>io.use\<close> makes of user 2 (a delivery partner), and a clock for a run.\<close>

definition ex_socket_partner :: req_user where
  "ex_socket_partner =
     \<lparr>ru_id = 2, ru_username = ''user2'', ru_role = ''delivery'', vendorId = None,
      deliveryPartnerId = None\<rparr>"

definition ex_clock :: "nat \<Rightarrow> date" where
  "ex_clock k = 7000 + k"

text \<open>Location samples of a partner, and the database holding a list of them.\<close>

definition ex_sample :: "nat \<Rightarrow> nat \<Rightarrow> nat option \<Rightarrow> date \<Rightarrow> locationUpdate" where
  "ex_sample i p k t =
     \<lparr>loc_id = i, loc_deliveryPartnerId = p, loc_orderId = k, latitude = 40,
      longitude = - 74, timestamp = t\<rparr>"

definition ex_loc_db :: "locationUpdate list \<Rightarrow> db" where
  "ex_loc_db rows =
     (ex_db ''assigned'' (Some 1))\<lparr>locationUpdates := rows,
                                   location_updates_id_seq := length rows\<rparr>"

definition ex_position :: "nat \<Rightarrow> nat option \<Rightarrow> insertLocationUpdate" where
  "ex_position p k =
     \<lparr>ins_deliveryPartnerId = p, ins_latitude = 40, ins_longitude = - 74, ins_orderId = k\<rparr>"

text \<open>
  An order as a client posts it, the row \<open>createOrder\<close> makes of it, and the database
  with a given orders table and sequence value.
\<close>

definition ex_insert :: insertOrder where
  "ex_insert =
     \<lparr>new_customerId = 4, new_vendorId = 1, new_deliveryPartnerId = None,
      new_customerName = ''Ann'', new_customerPhone = ''555'',
      new_deliveryAddress = ''2 Side St'', new_pickupAddress = ''1 Main St'',
      new_orderTotal = ''10.00'', new_status = None, new_deliveryLatitude = None,
      new_deliveryLongitude = None, new_pickupLatitude = None, new_pickupLongitude = None,
      new_estimatedDeliveryTime = None, new_actualDeliveryTime = None\<rparr>"

definition ex_orders_db :: "order list \<Rightarrow> nat \<Rightarrow> db" where
  "ex_orders_db rows n = (ex_db ''pending'' None)\<lparr>orders := rows, orders_id_seq := n\<rparr>"

definition ex_created :: "nat \<Rightarrow> string \<Rightarrow> date \<Rightarrow> date \<Rightarrow> order" where
  "ex_created i num t_upd t_db =
     (ex_order ''pending'' None)\<lparr>order_id := i, orderNumber := num, createdAt := Some t_db,
                                 updatedAt := Some t_upd\<rparr>"

definition ex_tied :: db where
  "ex_tied = ex_loc_db [ex_sample 1 1 (Some 1) 7001, ex_sample 2 1 (Some 1) 7001]"

definition ex_track :: db where
  "ex_track =
     ex_loc_db [ex_sample 1 1 (Some 1) 7001, ex_sample 2 1 None 7005,
                ex_sample 3 1 (Some 1) 7010, ex_sample 4 2 (Some 1) 7020]"

definition ex_writes :: "storage_op list" where
  "ex_writes =
     [CreateOrder ex_insert 1700000000000 8000 8001,
      CreateOrder ex_insert 1700000000000 8002 8003,
      CreateOrder ex_insert 1700000000001 8004 8005]"

section \<open>Lookups after an update\<close>

lemma find_map_preserve:
  assumes "\<And>x. P (g x) = P x"
  shows "find P (map g xs) = map_option g (find P xs)"
  using assms by (induction xs) auto

lemma find_SomeD: "find P xs = Some x \<Longrightarrow> P x"
  by (auto simp: find_Some_iff)

text \<open>The two order writes, as the function they apply to the rows with the given id.\<close>

lemma apply_sets_updateData:
  "apply_sets (updateData st t_upd t_del) od =
     (if st = ''delivered''
      then od\<lparr>status := st, updatedAt := Some t_upd, actualDeliveryTime := Some t_del\<rparr>
      else od\<lparr>status := st, updatedAt := Some t_upd\<rparr>)"
  by (simp add: apply_sets_def updateData_def)

lemma updateOrderStatus_row:
  "updateOrderStatus d i st t_upd t_del =
     update_orders_where_id i (apply_sets (updateData st t_upd t_del)) d"
  by (simp add: updateOrderStatus_def updateOrderStatus_sql_def run_all_def)

lemma assignDeliveryPartner_row:
  "assignDeliveryPartner d i p t_est t_upd =
     update_orders_where_id i
       (\<lambda>od. od\<lparr>order_deliveryPartnerId := Some p, status := ''assigned'',
              estimatedDeliveryTime := Some (t_est + 1800000),
              updatedAt := Some t_upd\<rparr>) d"
proof -
  have "apply_sets [SetDeliveryPartnerId p, SetStatus ''assigned'',
                    SetEstimatedDeliveryTime (t_est + 1800000), SetUpdatedAt t_upd] =
        (\<lambda>od. od\<lparr>order_deliveryPartnerId := Some p, status := ''assigned'',
               estimatedDeliveryTime := Some (t_est + 1800000),
               updatedAt := Some t_upd\<rparr>)"
    by (rule ext) (simp add: apply_sets_def)
  then show ?thesis
    by (simp add: assignDeliveryPartner_def assignDeliveryPartner_sql_def run_all_def)
qed

lemma order_id_updateData [simp]:
  "order_id (apply_sets (updateData st t_upd t_del) od) = order_id od"
  by (simp add: apply_sets_updateData)

lemma orderNumber_updateData [simp]:
  "orderNumber (apply_sets (updateData st t_upd t_del) od) = orderNumber od"
  by (simp add: apply_sets_updateData)

lemma status_updateData [simp]: "status (apply_sets (updateData st t_upd t_del) od) = st"
  by (simp add: apply_sets_updateData)

lemma actualDeliveryTime_updateData [simp]:
  "actualDeliveryTime (apply_sets (updateData st t_upd t_del) od) =
     (if st = ''delivered'' then Some t_del else actualDeliveryTime od)"
  by (simp add: apply_sets_updateData)

lemma getOrder_update_orders_where_id:
  assumes "\<And>od. order_id (f od) = order_id od"
  shows "getOrder (update_orders_where_id i f d) j =
           map_option (\<lambda>od. if j = i then f od else od) (getOrder d j)"
proof -
  let ?g = "\<lambda>od. if order_id od = i then f od else od"
  have pres: "\<And>od. (order_id (?g od) = j) = (order_id od = j)"
    using assms by simp
  have "find (\<lambda>od. order_id od = j) (map ?g (orders d)) =
          map_option ?g (find (\<lambda>od. order_id od = j) (orders d))"
    by (rule find_map_preserve) (rule pres)
  moreover have "map_option ?g (find (\<lambda>od. order_id od = j) (orders d)) =
                 map_option (\<lambda>od. if j = i then f od else od)
                   (find (\<lambda>od. order_id od = j) (orders d))"
  proof (cases "find (\<lambda>od. order_id od = j) (orders d)")
    case None
    then show ?thesis by simp
  next
    case (Some a)
    then have "order_id a = j" by (rule find_SomeD)
    then show ?thesis using Some by simp
  qed
  ultimately show ?thesis
    by (simp add: getOrder_def update_orders_where_id_def)
qed

section \<open>Stamping the completion time\<close>

text \<open>
  C9. A status update sends exactly one statement, an \<open>UPDATE\<close> of the order's rows
  whose assignments hold the status and, exactly when the requested status is delivered,
  the completion timestamp; so the database passes through no state between the one
  before the call and the one after it. Read back through \<open>getOrder\<close>, the order has
  the requested status, and its completion timestamp is the new one for delivered and
  the old one for any other status.
\<close>

theorem updateOrderStatus_single_write:
  "length (updateOrderStatus_sql i st t_upd t_del) = 1 \<and>
   (\<exists>sets. updateOrderStatus_sql i st t_upd t_del = [UpdateOrdersWhereId i sets] \<and>
           SetStatus st \<in> set sets \<and>
           (SetActualDeliveryTime t_del \<in> set sets) = (st = ''delivered'') \<and>
           (\<exists>t. SetActualDeliveryTime t \<in> set sets) = (st = ''delivered'')) \<and>
   db_states d (updateOrderStatus_sql i st t_upd t_del) =
     [d, updateOrderStatus d i st t_upd t_del] \<and>
   map_option status (getOrder (updateOrderStatus d i st t_upd t_del) i) =
     map_option (\<lambda>od. st) (getOrder d i) \<and>
   map_option actualDeliveryTime (getOrder (updateOrderStatus d i st t_upd t_del) i) =
     map_option (\<lambda>od. if st = ''delivered'' then Some t_del else actualDeliveryTime od)
       (getOrder d i)"
proof -
  have one: "length (updateOrderStatus_sql i st t_upd t_del) = 1"
    by (simp add: updateOrderStatus_sql_def)
  have sets: "\<exists>sets. updateOrderStatus_sql i st t_upd t_del = [UpdateOrdersWhereId i sets] \<and>
           SetStatus st \<in> set sets \<and>
           (SetActualDeliveryTime t_del \<in> set sets) = (st = ''delivered'') \<and>
           (\<exists>t. SetActualDeliveryTime t \<in> set sets) = (st = ''delivered'')"
    by (rule exI [of _ "updateData st t_upd t_del"])
       (auto simp: updateOrderStatus_sql_def updateData_def)
  have states: "db_states d (updateOrderStatus_sql i st t_upd t_del) =
     [d, updateOrderStatus d i st t_upd t_del]"
    by (simp add: updateOrderStatus_def updateOrderStatus_sql_def run_all_def)
  have get: "getOrder (updateOrderStatus d i st t_upd t_del) i =
               map_option (apply_sets (updateData st t_upd t_del)) (getOrder d i)"
    by (simp add: updateOrderStatus_row getOrder_update_orders_where_id)
  have rd: "map_option status (getOrder (updateOrderStatus d i st t_upd t_del) i) =
     map_option (\<lambda>od. st) (getOrder d i)"
    by (simp add: get option.map_comp comp_def)
  have ra: "map_option actualDeliveryTime (getOrder (updateOrderStatus d i st t_upd t_del) i) =
     map_option (\<lambda>od. if st = ''delivered'' then Some t_del else actualDeliveryTime od)
       (getOrder d i)"
    by (simp add: get option.map_comp comp_def)
  from one sets states rd ra show ?thesis by blast
qed

section \<open>Evaluation and lookup lemmas\<close>

lemma ex_db_sel [simp]:
  "users (ex_db st pid) =
     [ex_user 1 ''vendor'', ex_user 2 ''delivery'', ex_user 3 ''delivery'', ex_user 4 ''customer'',
      ex_user 5 ''delivery'']"
  "vendors (ex_db st pid) = [ex_vendor]"
  "deliveryPartners (ex_db st pid) =
     [ex_partner 1 2 True, ex_partner 2 3 True, ex_partner 3 5 False]"
  "orders (ex_db st pid) = [ex_order st pid]"
  "locationUpdates (ex_db st pid) = []"
  "orders_id_seq (ex_db st pid) = 1"
  "location_updates_id_seq (ex_db st pid) = 0"
  by (simp_all add: ex_db_def)

lemmas ex_defs = ex_order_def ex_partner_def ex_vendor_def ex_user_def ex_vendor_user_def
  ex_assign_def digit_char_def

lemmas eval_defs = authenticateToken_def requireRole_def getUser_def getVendorByUserId_def getDeliveryPartnerByUserId_def
   getOrder_def getDeliveryPartner_def getVendor_def canUpdate_def seq_null_undef_def updateOrderStatusSchema_def
   updateOrderStatus_row apply_sets_updateData assignDeliveryPartner_row update_orders_where_id_def

lemma authenticateToken_Inl_code:
  "authenticateToken d tok = Inl r \<Longrightarrow> status_code r \<noteq> 200"
  by (auto simp: authenticateToken_def Let_def split: token.splits option.splits if_splits)

lemma requireRole_cases:
  "requireRole roles u = (if ru_role u \<in> set roles then Inr u else Inl (Json 403 ''Insufficient permissions''))"
  by (simp add: requireRole_def)

lemma getOrder_updateOrderStatus:
  "getOrder (updateOrderStatus d i st t_upd t_del) j =
     map_option (\<lambda>od. if j = i then apply_sets (updateData st t_upd t_del) od else od)
       (getOrder d j)"
  by (simp add: updateOrderStatus_row getOrder_update_orders_where_id)

lemma getOrder_assignDeliveryPartner:
  "getOrder (assignDeliveryPartner d i p t_est t_upd) j =
     map_option
       (\<lambda>od. if j = i
             then od\<lparr>order_deliveryPartnerId := Some p, status := ''assigned'',
                     estimatedDeliveryTime := Some (t_est + 1800000),
                     updatedAt := Some t_upd\<rparr>
             else od)
       (getOrder d j)"
  by (simp add: assignDeliveryPartner_row getOrder_update_orders_where_id)

section \<open>Status updates\<close>

text \<open>
  C1 (as amended). The status handler enforces no edge set. It answers 200 exactly when
  the caller authenticates, the requested status is one of the six status values, the
  order exists and the caller is the order's vendor or its assigned partner; the order
  then reads back with the requested status, whatever its status was. Any other answer
  leaves the database as it was. The socket handler writes the requested status under
  the same relation check and otherwise changes nothing.
\<close>

theorem patch_order_status_any_edge:
  "(status_code (fst (patch_order_status d tok st i t_upd t_del)) = 200 \<longleftrightarrow>
      (\<exists>u od. authenticateToken d tok = Inr u \<and> st \<in> set updateOrderStatusSchema \<and>
               getOrder d i = Some od \<and> canUpdate u od)) \<and>
   (status_code (fst (patch_order_status d tok st i t_upd t_del)) = 200 \<longrightarrow>
      map_option status (getOrder (snd (patch_order_status d tok st i t_upd t_del)) i) = Some st) \<and>
   (status_code (fst (patch_order_status d tok st i t_upd t_del)) \<noteq> 200 \<longrightarrow>
      snd (patch_order_status d tok st i t_upd t_del) = d) \<and>
   (case data of
      None \<Rightarrow> fst (on_order_status_update d su data clk) = d
    | Some dt \<Rightarrow>
        fst (on_order_status_update d su data clk) =
          (if (case getOrder d (sd_orderId dt) of None \<Rightarrow> False | Some od \<Rightarrow> canUpdate su od)
           then updateOrderStatus d (sd_orderId dt) (sd_status dt) (clk 0) (clk 1)
           else d))"
proof -
  let ?r = "patch_order_status d tok st i t_upd t_del"
  have a: "status_code (fst ?r) = 200 \<longleftrightarrow>
      (\<exists>u od. authenticateToken d tok = Inr u \<and> st \<in> set updateOrderStatusSchema \<and>
               getOrder d i = Some od \<and> canUpdate u od)"
    by (auto simp: patch_order_status_def split: sum.splits option.splits
             dest: authenticateToken_Inl_code)
  have b: "status_code (fst ?r) = 200 \<longrightarrow> map_option status (getOrder (snd ?r) i) = Some st"
    by (auto simp: patch_order_status_def getOrder_updateOrderStatus
             split: sum.splits option.splits dest: authenticateToken_Inl_code)
  have c: "status_code (fst ?r) \<noteq> 200 \<longrightarrow> snd ?r = d"
    by (auto simp: patch_order_status_def split: sum.splits option.splits)
  have e: "(case data of
      None \<Rightarrow> fst (on_order_status_update d su data clk) = d
    | Some dt \<Rightarrow>
        fst (on_order_status_update d su data clk) =
          (if (case getOrder d (sd_orderId dt) of None \<Rightarrow> False | Some od \<Rightarrow> canUpdate su od)
           then updateOrderStatus d (sd_orderId dt) (sd_status dt) (clk 0) (clk 1)
           else d))"
    by (auto simp: on_order_status_update_def Let_def split: option.splits)
  from a b c e show ?thesis by blast
qed

theorem patch_order_status_any_edge_witness:
  "status_code (fst (patch_order_status (ex_db ''pending'' None) (Token 1) ''cancelled'' 1 5000 5001)) = 200 \<and>
   map_option status
     (getOrder (snd (patch_order_status (ex_db ''pending'' None) (Token 1) ''cancelled'' 1 5000 5001)) 1) =
     Some ''cancelled'' \<and>
   status_code (fst (patch_order_status (ex_db ''pending'' None) (Token 4) ''cancelled'' 1 5000 5001)) \<noteq> 200 \<and>
   snd (patch_order_status (ex_db ''pending'' None) (Token 4) ''cancelled'' 1 5000 5001) =
     ex_db ''pending'' None"
proof -
  have ok: "status_code (fst (patch_order_status (ex_db ''pending'' None) (Token 1) ''cancelled'' 1 5000 5001)) = 200"
    by (simp add: patch_order_status_def eval_defs ex_defs)
  have no: "status_code (fst (patch_order_status (ex_db ''pending'' None) (Token 4) ''cancelled'' 1 5000 5001)) \<noteq> 200"
    by (simp add: patch_order_status_def eval_defs ex_defs)
  from ok patch_order_status_any_edge [of "ex_db ''pending'' None" "Token 1" "''cancelled''" 1 5000 5001]
  have "map_option status
     (getOrder (snd (patch_order_status (ex_db ''pending'' None) (Token 1) ''cancelled'' 1 5000 5001)) 1) =
     Some ''cancelled''" by blast
  moreover from no patch_order_status_any_edge [of "ex_db ''pending'' None" "Token 4" "''cancelled''" 1 5000 5001]
  have "snd (patch_order_status (ex_db ''pending'' None) (Token 4) ''cancelled'' 1 5000 5001) =
     ex_db ''pending'' None" by blast
  ultimately show ?thesis using ok no by blast
qed

text \<open>
  A delivered order is set back to pending by its vendor: the edge delivered to pending
  is not in the claimed edge set, and delivered is a terminal status.
\<close>

theorem patch_order_status_leaves_terminal_cex:
  "map_option status (getOrder (ex_db ''delivered'' (Some 1)) 1) = Some ''delivered'' \<and>
   fst (patch_order_status (ex_db ''delivered'' (Some 1)) (Token 1) ''pending'' 1 5000 5001) =
     Json 200 ''Order status updated'' \<and>
   map_option status
     (getOrder (snd (patch_order_status (ex_db ''delivered'' (Some 1)) (Token 1) ''pending'' 1 5000 5001)) 1) =
     Some ''pending''"
  by (simp add: patch_order_status_def eval_defs ex_defs)

section \<open>Assignment\<close>

text \<open>
  C3 (as amended). An assign call that names a missing partner or one whose online flag
  is not true is answered with an error, and every call answered with an error leaves the
  database as it was. The order's status is no precondition: the call answers 200 exactly
  when the caller is an authenticated vendor, the order exists and is the caller's, and
  the partner exists and is online; the order then reads back assigned to that partner.
\<close>

theorem patch_order_assign_ignores_status:
  "((getDeliveryPartner d p = None \<or>
     (\<exists>pr. getDeliveryPartner d p = Some pr \<and> isOnline pr \<noteq> Some True)) \<longrightarrow>
      status_code (fst (patch_order_assign d tok i p t_est t_upd)) \<noteq> 200) \<and>
   (status_code (fst (patch_order_assign d tok i p t_est t_upd)) \<noteq> 200 \<longrightarrow>
      snd (patch_order_assign d tok i p t_est t_upd) = d) \<and>
   (status_code (fst (patch_order_assign d tok i p t_est t_upd)) = 200 \<longleftrightarrow>
      (\<exists>u od pr. authenticateToken d tok = Inr u \<and> ru_role u = ''vendor'' \<and>
                  getOrder d i = Some od \<and> Some (order_vendorId od) = vendorId u \<and>
                  getDeliveryPartner d p = Some pr \<and> isOnline pr = Some True)) \<and>
   (status_code (fst (patch_order_assign d tok i p t_est t_upd)) = 200 \<longrightarrow>
      map_option status (getOrder (snd (patch_order_assign d tok i p t_est t_upd)) i) =
        Some ''assigned'' \<and>
      map_option order_deliveryPartnerId
        (getOrder (snd (patch_order_assign d tok i p t_est t_upd)) i) = Some (Some p))"
proof -
  let ?r = "patch_order_assign d tok i p t_est t_upd"
  have ok: "status_code (fst ?r) = 200 \<longleftrightarrow>
      (\<exists>u od pr. authenticateToken d tok = Inr u \<and> ru_role u = ''vendor'' \<and>
                  getOrder d i = Some od \<and> Some (order_vendorId od) = vendorId u \<and>
                  getDeliveryPartner d p = Some pr \<and> isOnline pr = Some True)"
    by (auto simp: patch_order_assign_def assign_body_def requireRole_cases
             split: sum.splits option.splits if_splits dest: authenticateToken_Inl_code)
  have unchanged: "status_code (fst ?r) \<noteq> 200 \<longrightarrow> snd ?r = d"
    by (auto simp: patch_order_assign_def assign_body_def requireRole_cases
             split: sum.splits option.splits if_splits)
  have eff: "status_code (fst ?r) = 200 \<longrightarrow>
      map_option status (getOrder (snd ?r) i) = Some ''assigned'' \<and>
      map_option order_deliveryPartnerId (getOrder (snd ?r) i) = Some (Some p)"
    by (auto simp: patch_order_assign_def assign_body_def requireRole_cases
                   getOrder_assignDeliveryPartner
             split: sum.splits option.splits if_splits dest: authenticateToken_Inl_code)
  from ok have off: "(getDeliveryPartner d p = None \<or>
     (\<exists>pr. getDeliveryPartner d p = Some pr \<and> isOnline pr \<noteq> Some True)) \<longrightarrow>
      status_code (fst ?r) \<noteq> 200"
    by auto
  from ok unchanged eff off show ?thesis by blast
qed

text \<open>
  A delivered order is assigned again: the call answers 200 and rewrites status and
  partner.
\<close>

theorem patch_order_assign_delivered_cex:
  "map_option status (getOrder (ex_db ''delivered'' (Some 1)) 1) = Some ''delivered'' \<and>
   map_option isOnline (getDeliveryPartner (ex_db ''delivered'' (Some 1)) 2) = Some (Some True) \<and>
   fst (patch_order_assign (ex_db ''delivered'' (Some 1)) (Token 1) 1 2 5000 5001) =
     Json 200 ''Delivery partner assigned'' \<and>
   map_option status
     (getOrder (snd (patch_order_assign (ex_db ''delivered'' (Some 1)) (Token 1) 1 2 5000 5001)) 1) =
     Some ''assigned'' \<and>
   map_option order_deliveryPartnerId
     (getOrder (snd (patch_order_assign (ex_db ''delivered'' (Some 1)) (Token 1) 1 2 5000 5001)) 1) =
     Some (Some 2)"
  by (simp add: patch_order_assign_def assign_body_def eval_defs ex_defs)

theorem patch_order_assign_ignores_status_witness:
  "map_option isOnline (getDeliveryPartner (ex_db ''pending'' None) 3) = Some (Some False) \<and>
   status_code (fst (patch_order_assign (ex_db ''pending'' None) (Token 1) 1 3 5000 5001)) \<noteq> 200 \<and>
   snd (patch_order_assign (ex_db ''pending'' None) (Token 1) 1 3 5000 5001) = ex_db ''pending'' None \<and>
   status_code (fst (patch_order_assign (ex_db ''in_transit'' (Some 1)) (Token 1) 1 2 5000 5001)) = 200 \<and>
   map_option status
     (getOrder (snd (patch_order_assign (ex_db ''in_transit'' (Some 1)) (Token 1) 1 2 5000 5001)) 1) =
     Some ''assigned'' \<and>
   map_option order_deliveryPartnerId
     (getOrder (snd (patch_order_assign (ex_db ''in_transit'' (Some 1)) (Token 1) 1 2 5000 5001)) 1) =
     Some (Some 2)"
proof -
  have off: "\<exists>pr. getDeliveryPartner (ex_db ''pending'' None) 3 = Some pr \<and> isOnline pr \<noteq> Some True"
    by (simp add: eval_defs ex_defs)
  have off': "map_option isOnline (getDeliveryPartner (ex_db ''pending'' None) 3) = Some (Some False)"
    by (simp add: eval_defs ex_defs)
  note t1 = patch_order_assign_ignores_status [of "ex_db ''pending'' None" 3 "Token 1" 1 5000 5001]
  from t1 off have no: "status_code (fst (patch_order_assign (ex_db ''pending'' None) (Token 1) 1 3 5000 5001)) \<noteq> 200"
    by blast
  with t1 have same: "snd (patch_order_assign (ex_db ''pending'' None) (Token 1) 1 3 5000 5001) = ex_db ''pending'' None"
    by blast
  have ok: "status_code (fst (patch_order_assign (ex_db ''in_transit'' (Some 1)) (Token 1) 1 2 5000 5001)) = 200"
    by (simp add: patch_order_assign_def assign_body_def eval_defs ex_defs)
  note t2 = patch_order_assign_ignores_status [of "ex_db ''in_transit'' (Some 1)" 2 "Token 1" 1 5000 5001]
  from t2 ok have "map_option status
     (getOrder (snd (patch_order_assign (ex_db ''in_transit'' (Some 1)) (Token 1) 1 2 5000 5001)) 1) =
     Some ''assigned'' \<and>
   map_option order_deliveryPartnerId
     (getOrder (snd (patch_order_assign (ex_db ''in_transit'' (Some 1)) (Token 1) 1 2 5000 5001)) 1) =
     Some (Some 2)" by blast
  with off' no same ok show ?thesis by blast
qed

section \<open>Two assign requests for one order\<close>

lemma getDeliveryPartner_assignDeliveryPartner [simp]:
  "getDeliveryPartner (assignDeliveryPartner d i p t_est t_upd) q = getDeliveryPartner d q"
  by (simp add: assignDeliveryPartner_row getDeliveryPartner_def update_orders_where_id_def)

lemma race_step_first:
  assumes inv: "race_inv a b (pa, pb, d)"
    and same: "ar_orderId b = ar_orderId a"
    and step: "assign_step a pa d = (pa', d')"
  shows "race_inv a b (pa', pb, d') \<and> steps_left pa' = steps_left pa - 1"
proof -
  from inv have pa: "pa \<in> {AssignStart, OrderChecked, PartnerChecked,
               AssignDone (Json 200 ''Delivery partner assigned'')}"
    by (simp add: race_inv_def)
  then consider "pa = AssignStart" | "pa = OrderChecked" | "pa = PartnerChecked"
    | "pa = AssignDone (Json 200 ''Delivery partner assigned'')" by auto
  then show ?thesis
  proof cases
    case 1
    with inv step show ?thesis
      by (auto simp: race_inv_def assign_step_def split: option.splits if_splits)
  next
    case 2
    with inv step show ?thesis
      by (auto simp: race_inv_def assign_step_def split: option.splits if_splits)
  next
    case 3
    with inv step show ?thesis
      by (auto simp: race_inv_def assign_step_def getOrder_assignDeliveryPartner
               split: option.splits if_splits)
  next
    case 4
    with inv step show ?thesis
      by (auto simp: race_inv_def assign_step_def split: option.splits if_splits)
  qed
qed

lemma race_step_second:
  assumes inv: "race_inv a b (pa, pb, d)"
    and same: "ar_orderId b = ar_orderId a"
    and step: "assign_step b pb d = (pb', d')"
  shows "race_inv a b (pa, pb', d') \<and> steps_left pb' = steps_left pb - 1"
proof -
  from inv have pb: "pb \<in> {AssignStart, OrderChecked, PartnerChecked,
               AssignDone (Json 200 ''Delivery partner assigned'')}"
    by (simp add: race_inv_def)
  then consider "pb = AssignStart" | "pb = OrderChecked" | "pb = PartnerChecked"
    | "pb = AssignDone (Json 200 ''Delivery partner assigned'')" by auto
  then show ?thesis
  proof cases
    case 1
    with inv step same show ?thesis
      by (auto simp: race_inv_def assign_step_def split: option.splits if_splits)
  next
    case 2
    with inv step same show ?thesis
      by (auto simp: race_inv_def assign_step_def split: option.splits if_splits)
  next
    case 3
    with inv step same show ?thesis
      by (auto simp: race_inv_def assign_step_def getOrder_assignDeliveryPartner
               split: option.splits if_splits)
  next
    case 4
    with inv step same show ?thesis
      by (auto simp: race_inv_def assign_step_def split: option.splits if_splits)
  qed
qed

lemma run_race_inv:
  assumes same: "ar_orderId b = ar_orderId a"
  shows "race_inv a b (pa, pb, d) \<Longrightarrow> run_race a b sched (pa, pb, d) = (pa', pb', d') \<Longrightarrow>
         race_inv a b (pa', pb', d') \<and>
         steps_left pa' = steps_left pa - length (filter (\<lambda>x. x) sched) \<and>
         steps_left pb' = steps_left pb - length (filter (\<lambda>x. \<not> x) sched)"
proof (induction sched arbitrary: pa pb d)
  case Nil
  then show ?case by simp
next
  case (Cons x xs)
  show ?case
  proof (cases x)
    case True
    obtain pa1 d1 where st: "assign_step a pa d = (pa1, d1)" by (cases "assign_step a pa d")
    from race_step_first [OF Cons.prems(1) same st]
    have inv1: "race_inv a b (pa1, pb, d1)" and sl: "steps_left pa1 = steps_left pa - 1" by auto
    from Cons.prems(2) True st have "run_race a b xs (pa1, pb, d1) = (pa', pb', d')" by simp
    from Cons.IH [OF inv1 this] sl True show ?thesis by simp
  next
    case False
    obtain pb1 d1 where st: "assign_step b pb d = (pb1, d1)" by (cases "assign_step b pb d")
    from race_step_second [OF Cons.prems(1) same st]
    have inv1: "race_inv a b (pa, pb1, d1)" and sl: "steps_left pb1 = steps_left pb - 1" by auto
    from Cons.prems(2) False st have "run_race a b xs (pa, pb1, d1) = (pa', pb', d')" by simp
    from Cons.IH [OF inv1 this] sl False show ?thesis by simp
  qed
qed

text \<open>The handler's body is the three steps run one after the other.\<close>

lemma assign_body_steps:
  "run_race \<lparr>ar_user = u, ar_orderId = i, ar_partnerId = p, ar_t_est = t_est, ar_t_upd = t_upd\<rparr>
      b [True, True, True] (AssignStart, pb, d) =
     (AssignDone (fst (assign_body d u i p t_est t_upd)), pb,
      snd (assign_body d u i p t_est t_upd))"
  by (auto simp: assign_body_def assign_step_def split: option.splits)

text \<open>
  C2 (as amended). The assignment write is an unconditional update keyed on the order id.
  When two assign requests for the same order, each by the order's vendor and each naming
  an online partner, run to completion under any schedule, both are answered 200, and the
  order ends assigned to one of the two partners.
\<close>

theorem assign_race_both_ok:
  assumes "ar_orderId b = ar_orderId a"
    and "getOrder d (ar_orderId a) = Some od"
    and "Some (order_vendorId od) = vendorId (ar_user a)"
    and "Some (order_vendorId od) = vendorId (ar_user b)"
    and "getDeliveryPartner d (ar_partnerId a) = Some p"
    and "isOnline p = Some True"
    and "getDeliveryPartner d (ar_partnerId b) = Some q"
    and "isOnline q = Some True"
    and "3 \<le> length (filter (\<lambda>x. x) sched)"
    and "3 \<le> length (filter (\<lambda>x. \<not> x) sched)"
  shows "\<exists>d'. run_race a b sched (AssignStart, AssignStart, d) =
           (AssignDone (Json 200 ''Delivery partner assigned''),
            AssignDone (Json 200 ''Delivery partner assigned''), d') \<and>
           map_option status (getOrder d' (ar_orderId a)) = Some ''assigned'' \<and>
           map_option order_deliveryPartnerId (getOrder d' (ar_orderId a)) \<in>
             {Some (Some (ar_partnerId a)), Some (Some (ar_partnerId b))}"
proof -
  obtain pa' pb' d' where run: "run_race a b sched (AssignStart, AssignStart, d) = (pa', pb', d')"
    by (cases "run_race a b sched (AssignStart, AssignStart, d)")
  have inv0: "race_inv a b (AssignStart, AssignStart, d)"
    using assms by (simp add: race_inv_def)
  from run_race_inv [OF assms(1) inv0 run] assms(9,10)
  have inv: "race_inv a b (pa', pb', d')" and "steps_left pa' = 0" and "steps_left pb' = 0"
    by auto
  then show ?thesis using run
    by (auto simp: race_inv_def split: option.splits)
qed


theorem assign_race_both_ok_witness:
  "ar_orderId (ex_assign 2 6000) = ar_orderId (ex_assign 1 5000) \<and>
   getOrder (ex_db ''pending'' None) (ar_orderId (ex_assign 1 5000)) =
     Some (ex_order ''pending'' None) \<and>
   Some (order_vendorId (ex_order ''pending'' None)) = vendorId (ar_user (ex_assign 1 5000)) \<and>
   Some (order_vendorId (ex_order ''pending'' None)) = vendorId (ar_user (ex_assign 2 6000)) \<and>
   getDeliveryPartner (ex_db ''pending'' None) (ar_partnerId (ex_assign 1 5000)) =
     Some (ex_partner 1 2 True) \<and>
   getDeliveryPartner (ex_db ''pending'' None) (ar_partnerId (ex_assign 2 6000)) =
     Some (ex_partner 2 3 True) \<and>
   (\<exists>d'. run_race (ex_assign 1 5000) (ex_assign 2 6000)
            [True, False, False, True, False, True]
            (AssignStart, AssignStart, ex_db ''pending'' None) =
           (AssignDone (Json 200 ''Delivery partner assigned''),
            AssignDone (Json 200 ''Delivery partner assigned''), d') \<and>
         map_option status (getOrder d' (ar_orderId (ex_assign 1 5000))) = Some ''assigned'' \<and>
         map_option order_deliveryPartnerId (getOrder d' (ar_orderId (ex_assign 1 5000))) \<in>
           {Some (Some (ar_partnerId (ex_assign 1 5000))),
            Some (Some (ar_partnerId (ex_assign 2 6000)))})"
proof -
  have h1: "ar_orderId (ex_assign 2 6000) = ar_orderId (ex_assign 1 5000)"
    by (simp add: ex_defs)
  have h2: "getOrder (ex_db ''pending'' None) (ar_orderId (ex_assign 1 5000)) =
     Some (ex_order ''pending'' None)"
    by (simp add: eval_defs ex_defs)
  have h3: "Some (order_vendorId (ex_order ''pending'' None)) =
     vendorId (ar_user (ex_assign 1 5000))"
    by (simp add: ex_defs)
  have h4: "Some (order_vendorId (ex_order ''pending'' None)) =
     vendorId (ar_user (ex_assign 2 6000))"
    by (simp add: ex_defs)
  have h5: "getDeliveryPartner (ex_db ''pending'' None) (ar_partnerId (ex_assign 1 5000)) =
     Some (ex_partner 1 2 True)"
    by (simp add: eval_defs ex_defs)
  have h6: "isOnline (ex_partner 1 2 True) = Some True"
    by (simp add: ex_defs)
  have h7: "getDeliveryPartner (ex_db ''pending'' None) (ar_partnerId (ex_assign 2 6000)) =
     Some (ex_partner 2 3 True)"
    by (simp add: eval_defs ex_defs)
  have h8: "isOnline (ex_partner 2 3 True) = Some True"
    by (simp add: ex_defs)
  have h9: "3 \<le> length (filter (\<lambda>x. x) [True, False, False, True, False, True])"
    by simp
  have h10: "3 \<le> length (filter (\<lambda>x. \<not> x) [True, False, False, True, False, True])"
    by simp
  from assign_race_both_ok [OF h1 h2 h3 h4 h5 h6 h7 h8 h9 h10] h1 h2 h3 h4 h5 h7
  show ?thesis by blast
qed

text \<open>
  Two requests of vendor 1 for the pending order 1, run one after the other: the first
  is answered 200 and assigns partner 1; the second is answered 200 as well and
  overwrites the assignment with partner 2. Run in alternation, both pass their checks
  before either writes, and both are answered 200 again.
\<close>

theorem assign_race_serial_cex:
  "authenticateToken (ex_db ''pending'' None) (Token 1) = Inr ex_vendor_user \<and>
   map_option status (getOrder (ex_db ''pending'' None) 1) = Some ''pending'' \<and>
   (case run_race (ex_assign 1 5000) (ex_assign 2 6000) [True, True, True]
           (AssignStart, AssignStart, ex_db ''pending'' None) of
      (ra, rb, d') \<Rightarrow>
        ra = AssignDone (Json 200 ''Delivery partner assigned'') \<and>
        map_option order_deliveryPartnerId (getOrder d' 1) = Some (Some 1)) \<and>
   (case run_race (ex_assign 1 5000) (ex_assign 2 6000)
           [True, True, True, False, False, False]
           (AssignStart, AssignStart, ex_db ''pending'' None) of
      (ra, rb, d') \<Rightarrow>
        ra = AssignDone (Json 200 ''Delivery partner assigned'') \<and>
        rb = AssignDone (Json 200 ''Delivery partner assigned'') \<and>
        map_option order_deliveryPartnerId (getOrder d' 1) = Some (Some 2)) \<and>
   (case run_race (ex_assign 1 5000) (ex_assign 2 6000)
           [True, False, True, False, True, False]
           (AssignStart, AssignStart, ex_db ''pending'' None) of
      (ra, rb, d') \<Rightarrow>
        ra = AssignDone (Json 200 ''Delivery partner assigned'') \<and>
        rb = AssignDone (Json 200 ''Delivery partner assigned'') \<and>
        map_option order_deliveryPartnerId (getOrder d' 1) = Some (Some 2))"
  by (simp add: assign_step_def eval_defs ex_defs)

section \<open>Status updates over the socket\<close>

text \<open>
  \<open>io.use\<close> never sets \<open>vendorId\<close> or \<open>deliveryPartnerId\<close>, so the relation check of
  the socket handler fails for every connection.
\<close>

lemma io_use_no_relation:
  "io_use d tok = Inr u \<Longrightarrow> vendorId u = None \<and> deliveryPartnerId u = None"
  by (auto simp: io_use_def split: token.splits option.splits if_splits)

lemma canUpdate_socket_user:
  "vendorId u = None \<Longrightarrow> deliveryPartnerId u = None \<Longrightarrow> \<not> canUpdate u od"
  by (simp add: canUpdate_def seq_null_undef_def split: option.splits)

lemma socket_status_update_never_applies:
  "io_use d tok = Inr u \<Longrightarrow> on_order_status_update d u (Some dt) clk = (d, [])"
  by (auto simp: on_order_status_update_def canUpdate_socket_user
           dest!: io_use_no_relation split: option.splits)

text \<open>
  C4 (the code departs from the claim). User 2 is the partner assigned to order 1 and
  sends \<open>order_status_update {orderId: 1, status: "picked_up"}\<close> over the socket:
  nothing is written and nothing is emitted. The same user's HTTP request is answered 200.
\<close>

theorem socket_status_update_assigned_partner_denied:
  "io_use (ex_db ''assigned'' (Some 1)) (Token 2) = Inr ex_socket_partner \<and>
   map_option partner_id (getDeliveryPartnerByUserId (ex_db ''assigned'' (Some 1)) 2) = Some 1 \<and>
   map_option order_deliveryPartnerId (getOrder (ex_db ''assigned'' (Some 1)) 1) = Some (Some 1) \<and>
   on_order_status_update (ex_db ''assigned'' (Some 1)) ex_socket_partner
       (Some \<lparr>sd_orderId = 1, sd_status = ''picked_up''\<rparr>) ex_clock =
     (ex_db ''assigned'' (Some 1), []) \<and>
   fst (patch_order_status (ex_db ''assigned'' (Some 1)) (Token 2) ''picked_up'' 1 7000 7001) =
     Json 200 ''Order status updated''"
  by (simp add: io_use_def on_order_status_update_def patch_order_status_def ex_socket_partner_def
        eval_defs ex_defs)

text \<open>
  C8 (the code departs from the claim). An event that names no existing order, and one
  from a sender without relation to the order, return without any acknowledgment, where
  the HTTP handler answers 404 and 403; only a failure inside the \<open>try\<close> block is
  acknowledged with \<open>order_status_update_error\<close>.
\<close>

theorem socket_status_update_silent_returns:
  "getOrder (ex_db ''assigned'' (Some 1)) 99 = None \<and>
   on_order_status_update (ex_db ''assigned'' (Some 1)) ex_socket_partner
       (Some \<lparr>sd_orderId = 99, sd_status = ''picked_up''\<rparr>) ex_clock =
     (ex_db ''assigned'' (Some 1), []) \<and>
   fst (patch_order_status (ex_db ''assigned'' (Some 1)) (Token 1) ''picked_up'' 99 7000 7001) =
     Json 404 ''Order not found'' \<and>
   on_order_status_update (ex_db ''assigned'' (Some 1))
       \<lparr>ru_id = 4, ru_username = ''user4'', ru_role = ''customer'', vendorId = None,
        deliveryPartnerId = None\<rparr>
       (Some \<lparr>sd_orderId = 1, sd_status = ''cancelled''\<rparr>) ex_clock =
     (ex_db ''assigned'' (Some 1), []) \<and>
   fst (patch_order_status (ex_db ''assigned'' (Some 1)) (Token 4) ''cancelled'' 1 7000 7001) =
     Json 403 ''Unauthorized'' \<and>
   on_order_status_update (ex_db ''assigned'' (Some 1)) ex_socket_partner None ex_clock =
     (ex_db ''assigned'' (Some 1),
      [ToSocket (OrderStatusUpdateError ''Failed to update order status'')])"
  by (simp add: on_order_status_update_def patch_order_status_def ex_socket_partner_def
        eval_defs ex_defs)

section \<open>Coordinates of stored samples\<close>

lemma round_half_away_bound:
  assumes "\<bar>x\<bar> \<le> of_int n"
  shows "\<bar>round_half_away x\<bar> \<le> n"
proof (cases "0 \<le> x")
  case True
  with assms have "x + 1 / 2 < of_int (n + 1)" by simp
  then have "\<lfloor>x + 1 / 2\<rfloor> < n + 1" by (simp only: floor_less_iff)
  moreover from True have "0 \<le> \<lfloor>x + 1 / 2\<rfloor>" by simp
  ultimately show ?thesis using True by (simp add: round_half_away_def)
next
  case False
  with assms have "- x + 1 / 2 < of_int (n + 1)" by simp
  then have "\<lfloor>- x + 1 / 2\<rfloor> < n + 1" by (simp only: floor_less_iff)
  moreover from False have "0 \<le> \<lfloor>- x + 1 / 2\<rfloor>" by simp
  ultimately show ?thesis using False by (simp add: round_half_away_def)
qed

lemma pg_decimal_bound:
  assumes "pg_decimal p s x = Inr y" and "\<bar>x\<bar> \<le> of_nat n"
  shows "\<bar>y\<bar> \<le> of_nat n"
proof -
  let ?r = "round_half_away (x * 10 ^ s)"
  from assms(1) have y: "y = of_int ?r / 10 ^ s"
    by (simp add: pg_decimal_def Let_def split: if_splits)
  have "\<bar>x * 10 ^ s\<bar> = \<bar>x\<bar> * 10 ^ s" by (simp add: abs_mult)
  also from assms(2) have "\<dots> \<le> of_nat n * 10 ^ s" by (simp add: mult_right_mono)
  also have "\<dots> = of_int (int n * 10 ^ s)" by simp
  finally have "\<bar>?r\<bar> \<le> int n * 10 ^ s" by (rule round_half_away_bound)
  then have "(of_int \<bar>?r\<bar> :: rat) \<le> of_int (int n * 10 ^ s)" by (simp only: of_int_le_iff)
  then have "\<bar>of_int ?r :: rat\<bar> \<le> of_nat n * 10 ^ s" by simp
  then have "\<bar>of_int ?r :: rat\<bar> / 10 ^ s \<le> of_nat n"
    by (simp add: divide_le_eq)
  then show ?thesis by (simp add: y)
qed

text \<open>
  The HTTP path: a sample stored by \<open>POST /api/location/update\<close> lies in the ranges
  of \<open>updateLocationSchema\<close>, also after the column has rounded it.
\<close>

lemma post_location_update_in_range:
  assumes "post_location_update d tok lat lon k t_loc t_db = (Json 200 m, d')"
  shows "\<exists>row. locationUpdates d' = locationUpdates d @ [row] \<and>
           - 90 \<le> latitude row \<and> latitude row \<le> 90 \<and>
           - 180 \<le> longitude row \<and> longitude row \<le> 180"
proof -
  from assms obtain u pid d1 row where
    ok: "updateLocationSchema lat lon"
    and upd: "updateDeliveryPartnerLocation d pid lat lon t_loc = Inr d1"
    and ins: "createLocationUpdate d1
                \<lparr>ins_deliveryPartnerId = pid, ins_latitude = lat, ins_longitude = lon,
                 ins_orderId = k\<rparr> t_db = Inr (row, d')"
    by (auto simp: post_location_update_def requireRole_cases
             split: sum.splits option.splits if_splits prod.splits
             dest: authenticateToken_Inl_code)
  from upd have same: "locationUpdates d1 = locationUpdates d"
    by (auto simp: updateDeliveryPartnerLocation_def split: sum.splits)
  from ins obtain la lo where la: "pg_decimal 10 8 lat = Inr la"
    and lo: "pg_decimal 11 8 lon = Inr lo"
    and row: "latitude row = la" "longitude row = lo"
    and app: "locationUpdates d' = locationUpdates d1 @ [row]"
    by (auto simp: createLocationUpdate_def insert_location_update_def Let_def
             split: sum.splits if_splits)
  from ok have blat: "\<bar>lat\<bar> \<le> of_nat 90" and blon: "\<bar>lon\<bar> \<le> of_nat 180"
    by (auto simp: updateLocationSchema_def abs_le_iff)
  from pg_decimal_bound [OF la blat] pg_decimal_bound [OF lo blon]
  have "- 90 \<le> la \<and> la \<le> 90 \<and> - 180 \<le> lo \<and> lo \<le> 180"
    by (auto simp: abs_le_iff)
  with row app same show ?thesis by auto
qed

lemma pg_decimal_95: "pg_decimal 10 8 95 = Inr 95"
  by code_simp

lemma pg_decimal_0: "pg_decimal 11 8 0 = Inr 0"
  by code_simp

text \<open>
  C6 (the code departs from the claim). The socket handler stores the coordinates it
  receives without the range check of \<open>updateLocationSchema\<close>: latitude 95 is stored and
  acknowledged with \<open>location_update_success\<close>; the HTTP handler refuses the same
  coordinates and stores nothing.
\<close>

theorem socket_location_update_out_of_range_stored:
  "\<not> updateLocationSchema 95 0 \<and>
   io_use (ex_db ''assigned'' (Some 1)) (Token 2) = Inr ex_socket_partner \<and>
   snd (on_location_update (ex_db ''assigned'' (Some 1)) ex_socket_partner
          (Some \<lparr>ld_latitude = 95, ld_longitude = 0, ld_orderId = None\<rparr>) ex_clock) =
     [ToSocket LocationUpdateSuccess] \<and>
   locationUpdates
     (fst (on_location_update (ex_db ''assigned'' (Some 1)) ex_socket_partner
             (Some \<lparr>ld_latitude = 95, ld_longitude = 0, ld_orderId = None\<rparr>) ex_clock)) =
     [\<lparr>loc_id = 1, loc_deliveryPartnerId = 1, loc_orderId = None, latitude = 95,
       longitude = 0, timestamp = 7001\<rparr>] \<and>
   post_location_update (ex_db ''assigned'' (Some 1)) (Token 2) 95 0 None 7000 7001 =
     (ZodError, ex_db ''assigned'' (Some 1))"
  by (simp add: on_location_update_def post_location_update_def io_use_def location_broadcast_def
        updateLocationSchema_def updateDeliveryPartnerLocation_def createLocationUpdate_def
        insert_location_update_def Let_def pg_decimal_95 pg_decimal_0 ex_socket_partner_def ex_clock_def
        eval_defs ex_defs)

section \<open>Location history\<close>

lemma mset_insert_desc [simp]: "mset (insert_desc tie k x xs) = add_mset x (mset xs)"
  by (induction xs) auto

lemma order_by_desc_Nil [simp]: "order_by_desc tie k [] = []"
  by (simp add: order_by_desc_def)

lemma order_by_desc_Cons: "order_by_desc tie k (x # xs) = insert_desc tie k x (order_by_desc tie k xs)"
  by (simp add: order_by_desc_def)

lemma mset_order_by_desc [simp]: "mset (order_by_desc tie k xs) = mset xs"
  by (induction xs) (auto simp: order_by_desc_def)

lemma set_insert_desc [simp]: "set (insert_desc tie k x xs) = insert x (set xs)"
  by (induction xs) auto

lemma set_order_by_desc [simp]: "set (order_by_desc tie k xs) = set xs"
  by (induction xs) (auto simp: order_by_desc_def)

lemma sorted_insert_desc:
  "sorted_wrt (\<lambda>a b. k b \<le> k a) xs \<Longrightarrow> sorted_wrt (\<lambda>a b. k b \<le> k a) (insert_desc tie k x xs)"
  by (induction xs) auto

lemma sorted_order_by_desc: "sorted_wrt (\<lambda>a b. k b \<le> k a) (order_by_desc tie k xs)"
  by (induction xs) (auto simp: order_by_desc_def sorted_insert_desc)

lemma strict_of_distinct:
  "sorted_wrt (\<lambda>a b. k b \<le> k a) xs \<Longrightarrow> distinct (map k xs) \<Longrightarrow>
   sorted_wrt (\<lambda>a b. (k b :: nat) < k a) xs"
proof (induction xs)
  case Nil
  then show ?case by simp
next
  case (Cons a xs)
  from Cons.prems have le: "\<forall>y \<in> set xs. k y \<le> k a"
    and tl: "sorted_wrt (\<lambda>a b. k b \<le> k a) xs"
    and fresh: "k a \<notin> k ` set xs" and dist: "distinct (map k xs)"
    by simp_all
  have "\<forall>y \<in> set xs. k y < k a"
  proof
    fix y assume y: "y \<in> set xs"
    with le have "k y \<le> k a" by blast
    moreover from y fresh have "k y \<noteq> k a" by (metis image_eqI)
    ultimately show "k y < k a" by simp
  qed
  with Cons.IH [OF tl dist] show ?case by simp
qed

lemma history_filter:
  "orderId \<noteq> Some 0 \<Longrightarrow>
   filter (\<lambda>u. list_all (\<lambda>c. c u) (history_conditions p orderId)) xs =
   filter (\<lambda>u. loc_deliveryPartnerId u = p \<and>
                (case orderId of None \<Rightarrow> True | Some k \<Rightarrow> loc_orderId u = Some k)) xs"
  by (cases orderId) (auto simp: history_conditions_def intro: filter_cong)

text \<open>The order id 0 is falsy in \<open>if (orderId)\<close>: it filters nothing.\<close>

lemma history_order_zero_unfiltered:
  "getLocationHistory d tie p (Some 0) = getLocationHistory d tie p None"
  by (simp add: getLocationHistory_def history_conditions_def)


text \<open>
  C7 (as amended). For an order filter other than 0, and without a filter, the history
  holds exactly the partner's samples that match, each as often as it is stored, newest
  first, whatever the engine does with equal timestamps; the order is strictly descending
  when the timestamps returned are pairwise different.
\<close>

theorem getLocationHistory_descending:
  assumes "orderId \<noteq> Some 0"
  shows "mset (getLocationHistory d tie p orderId) =
           mset (filter (\<lambda>u. loc_deliveryPartnerId u = p \<and>
                              (case orderId of None \<Rightarrow> True | Some k \<Rightarrow> loc_orderId u = Some k))
                   (locationUpdates d)) \<and>
         sorted_wrt (\<lambda>a b. timestamp b \<le> timestamp a) (getLocationHistory d tie p orderId) \<and>
         (distinct (map timestamp (getLocationHistory d tie p orderId)) \<longrightarrow>
            sorted_wrt (\<lambda>a b. timestamp b < timestamp a) (getLocationHistory d tie p orderId))"
proof -
  have "mset (getLocationHistory d tie p orderId) =
           mset (filter (\<lambda>u. loc_deliveryPartnerId u = p \<and>
                              (case orderId of None \<Rightarrow> True | Some k \<Rightarrow> loc_orderId u = Some k))
                   (locationUpdates d))"
    using assms by (simp add: getLocationHistory_def history_filter)
  moreover have s: "sorted_wrt (\<lambda>a b. timestamp b \<le> timestamp a) (getLocationHistory d tie p orderId)"
    by (simp add: getLocationHistory_def sorted_order_by_desc)
  moreover have "distinct (map timestamp (getLocationHistory d tie p orderId)) \<longrightarrow>
            sorted_wrt (\<lambda>a b. timestamp b < timestamp a) (getLocationHistory d tie p orderId)"
    using s by (simp add: strict_of_distinct)
  ultimately show ?thesis by blast
qed

lemma pg_decimal_40: "pg_decimal 10 8 40 = Inr 40"
  by code_simp

lemma pg_decimal_m74: "pg_decimal 11 8 (- 74) = Inr (- 74)"
  by code_simp

lemmas loc_defs = ex_loc_db_def ex_sample_def ex_position_def ex_track_def
  ex_tied_def getLocationHistory_def history_conditions_def getLatestLocationForPartner_def
  order_by_desc_def ties_in_table_order_def ties_reversed_def

theorem getLocationHistory_descending_witness:
  "Some (1::nat) \<noteq> Some 0 \<and>
   getLocationHistory ex_track ties_in_table_order 1 (Some 1) =
     [ex_sample 3 1 (Some 1) 7010, ex_sample 1 1 (Some 1) 7001] \<and>
   distinct (map timestamp (getLocationHistory ex_track ties_in_table_order 1 (Some 1))) \<and>
   mset (getLocationHistory ex_track ties_in_table_order 1 (Some 1)) =
     mset (filter (\<lambda>u. loc_deliveryPartnerId u = 1 \<and> loc_orderId u = Some 1)
             (locationUpdates ex_track)) \<and>
   sorted_wrt (\<lambda>a b. timestamp b < timestamp a) (getLocationHistory ex_track ties_in_table_order 1 (Some 1))"
proof -
  have h: "Some (1::nat) \<noteq> Some 0" by simp
  have e: "getLocationHistory ex_track ties_in_table_order 1 (Some 1) =
     [ex_sample 3 1 (Some 1) 7010, ex_sample 1 1 (Some 1) 7001]"
    by (simp add: loc_defs ex_defs)
  have dist: "distinct (map timestamp (getLocationHistory ex_track ties_in_table_order 1 (Some 1)))"
    by (subst e) (simp add: ex_sample_def)
  note t = getLocationHistory_descending [OF h, of ex_track ties_in_table_order 1]
  from t dist have s: "sorted_wrt (\<lambda>a b. timestamp b < timestamp a)
     (getLocationHistory ex_track ties_in_table_order 1 (Some 1))" by blast
  from t have m: "mset (getLocationHistory ex_track ties_in_table_order 1 (Some 1)) =
     mset (filter (\<lambda>u. loc_deliveryPartnerId u = 1 \<and> loc_orderId u = Some 1)
             (locationUpdates ex_track))" by simp
  from h e dist m s show ?thesis by blast
qed

text \<open>
  Two samples of one partner written at the same clock reading: the history holds both,
  with equal timestamps next to each other, in either order.
\<close>

theorem getLocationHistory_equal_timestamps_cex:
  "exec (ex_loc_db [])
     [CreateLocationUpdate (ex_position 1 (Some 1)) 7001,
      CreateLocationUpdate (ex_position 1 (Some 1)) 7001] = ex_tied \<and>
   getLocationHistory ex_tied ties_in_table_order 1 (Some 1) =
     [ex_sample 1 1 (Some 1) 7001, ex_sample 2 1 (Some 1) 7001] \<and>
   getLocationHistory ex_tied ties_reversed 1 (Some 1) =
     [ex_sample 2 1 (Some 1) 7001, ex_sample 1 1 (Some 1) 7001] \<and>
   \<not> sorted_wrt (\<lambda>a b. timestamp b < timestamp a)
       (getLocationHistory ex_tied ties_in_table_order 1 (Some 1)) \<and>
   \<not> sorted_wrt (\<lambda>a b. timestamp b < timestamp a)
       (getLocationHistory ex_tied ties_reversed 1 (Some 1)) \<and>
   \<not> sorted_wrt (\<lambda>a b. timestamp b < timestamp a)
       (getLocationHistory ex_tied ties_in_table_order 1 None)"
  by (simp add: exec_def createLocationUpdate_def insert_location_update_def Let_def
        pg_decimal_40 pg_decimal_m74 loc_defs ex_defs)

section \<open>Latest location\<close>

lemma order_by_desc_Nil_iff [simp]: "order_by_desc tie k xs = [] \<longleftrightarrow> xs = []"
proof -
  have "mset (order_by_desc tie k xs) = {#} \<longleftrightarrow> mset xs = {#}" by simp
  then show ?thesis by (simp only: mset_zero_iff)
qed

lemma history_no_filter:
  "getLocationHistory d tie p None =
     order_by_desc tie timestamp (filter (\<lambda>u. loc_deliveryPartnerId u = p) (locationUpdates d))"
  by (simp add: getLocationHistory_def history_conditions_def)

lemma latest_head:
  "getLatestLocationForPartner d tie p =
     (case order_by_desc tie timestamp
             (filter (\<lambda>u. loc_deliveryPartnerId u = p) (locationUpdates d)) of
        [] \<Rightarrow> None
      | u # _ \<Rightarrow> Some u)"
  by (cases "order_by_desc tie timestamp
               (filter (\<lambda>u. loc_deliveryPartnerId u = p) (locationUpdates d))")
     (simp_all add: getLatestLocationForPartner_def)

text \<open>The head of an ordered result is one of the rows, and no row has a greater key.\<close>

lemma order_by_desc_head:
  assumes "order_by_desc tie k xs = u # rest"
  shows "u \<in> set xs \<and> (\<forall>v \<in> set xs. k v \<le> k u)"
proof -
  have "set (order_by_desc tie k xs) = set xs" by simp
  with assms have mem: "u \<in> set xs" and all: "set xs = insert u (set rest)" by auto
  have "sorted_wrt (\<lambda>a b. k b \<le> k a) (order_by_desc tie k xs)" by (rule sorted_order_by_desc)
  with assms have "\<forall>v \<in> set rest. k v \<le> k u" by simp
  with all have "\<forall>v \<in> set xs. k v \<le> k u" by simp
  with mem show ?thesis by simp
qed

lemma at_most_one_member:
  "length xs \<le> 1 \<Longrightarrow> a \<in> set xs \<Longrightarrow> b \<in> set xs \<Longrightarrow> a = b"
  by (cases xs) auto

lemma heads_agree:
  assumes one: "length (filter (\<lambda>u. list_all (\<lambda>v. (k v :: nat) \<le> k u) xs) xs) \<le> 1"
  shows "(case order_by_desc tie k xs of [] \<Rightarrow> None | u # _ \<Rightarrow> Some u) =
         (case order_by_desc tie' k xs of [] \<Rightarrow> None | u # _ \<Rightarrow> Some u)"
proof (cases "order_by_desc tie k xs")
  case Nil
  then have "xs = []" by simp
  then show ?thesis by simp
next
  case (Cons u rest)
  then have "xs \<noteq> []" by auto
  then have "order_by_desc tie' k xs \<noteq> []" by simp
  then obtain h rest' where h: "order_by_desc tie' k xs = h # rest'"
    by (cases "order_by_desc tie' k xs") auto
  from order_by_desc_head [OF Cons]
  have "u \<in> set (filter (\<lambda>u. list_all (\<lambda>v. k v \<le> k u) xs) xs)"
    by (simp add: list_all_iff)
  moreover from order_by_desc_head [OF h]
  have "h \<in> set (filter (\<lambda>u. list_all (\<lambda>v. k v \<le> k u) xs) xs)"
    by (simp add: list_all_iff)
  ultimately have "u = h" using one by (rule at_most_one_member [rotated])
  with Cons h show ?thesis by simp
qed

lemma heads_same_key:
  "map_option k (case order_by_desc tie k xs of [] \<Rightarrow> None | u # _ \<Rightarrow> Some u) =
   map_option (k :: 'a \<Rightarrow> nat)
     (case order_by_desc tie' k xs of [] \<Rightarrow> None | u # _ \<Rightarrow> Some u)"
proof (cases "order_by_desc tie k xs")
  case Nil
  then have "xs = []" by simp
  then show ?thesis by simp
next
  case (Cons u rest)
  then have "xs \<noteq> []" by auto
  then have "order_by_desc tie' k xs \<noteq> []" by simp
  then obtain h rest' where h: "order_by_desc tie' k xs = h # rest'"
    by (cases "order_by_desc tie' k xs") auto
  from order_by_desc_head [OF Cons] order_by_desc_head [OF h]
  have "k h \<le> k u" and "k u \<le> k h" by auto
  then have "k u = k h" by simp
  with Cons h show ?thesis by simp
qed

lemma locationUpdates_apply_op:
  "\<exists>ys. locationUpdates (apply_op d op) = locationUpdates d @ ys"
proof (cases op)
  case (CreateLocationUpdate u now)
  then show ?thesis
    by (auto simp: createLocationUpdate_def insert_location_update_def Let_def
             split: sum.splits if_splits)
next
  case (CreateOrder ins a b c)
  then show ?thesis
    by (auto simp: createOrder_def insert_order_def Let_def split: sum.splits if_splits)
next
  case (UpdateDeliveryPartnerLocation p lat lon now)
  then show ?thesis
    by (auto simp: updateDeliveryPartnerLocation_def split: sum.splits)
qed (simp_all add: updateOrderStatus_row assignDeliveryPartner_row update_orders_where_id_def
       updateDeliveryPartnerStatus_def)

lemma locationUpdates_exec:
  "\<exists>ys. locationUpdates (exec d ops) = locationUpdates d @ ys"
proof (induction ops arbitrary: d)
  case Nil
  then show ?case by (simp add: exec_def)
next
  case (Cons op ops)
  obtain ys where a: "locationUpdates (apply_op d op) = locationUpdates d @ ys"
    using locationUpdates_apply_op by blast
  obtain zs where b: "locationUpdates (exec (apply_op d op) ops) = locationUpdates (apply_op d op) @ zs"
    using Cons.IH by blast
  have "exec d (op # ops) = exec (apply_op d op) ops" by (simp add: exec_def)
  with a b show ?case by simp
qed

lemma latest_None_iff:
  "getLatestLocationForPartner d tie p = None \<longleftrightarrow>
     p \<notin> set (map loc_deliveryPartnerId (locationUpdates d))"
proof -
  let ?rows = "filter (\<lambda>u. loc_deliveryPartnerId u = p) (locationUpdates d)"
  have "getLatestLocationForPartner d tie p = None \<longleftrightarrow> order_by_desc tie timestamp ?rows = []"
    by (cases "order_by_desc tie timestamp ?rows") (simp_all add: getLatestLocationForPartner_def)
  also have "\<dots> \<longleftrightarrow> ?rows = []"
    by (rule order_by_desc_Nil_iff)
  also have "\<dots> \<longleftrightarrow> p \<notin> set (map loc_deliveryPartnerId (locationUpdates d))"
    by (auto simp: filter_empty_conv)
  finally show ?thesis .
qed

lemma createLocationUpdate_recorded:
  assumes "createLocationUpdate d u now = Inr (row, d')"
  shows "ins_deliveryPartnerId u \<in> set (map loc_deliveryPartnerId (locationUpdates d'))"
  using assms
  by (auto simp: createLocationUpdate_def insert_location_update_def Let_def
           split: sum.splits if_splits)

text \<open>
  C10 (as amended). The latest location is a stored sample of the partner with the
  greatest timestamp, and that timestamp is the one of the first element of the
  unfiltered history, whatever the two queries do with equal timestamps. It is that first
  element when only one sample of the partner has the greatest timestamp. It is absent
  exactly when the table holds no sample of the partner; after a sample of the partner
  is recorded it is present, and no later write makes it absent.
\<close>

theorem getLatestLocationForPartner_greatest:
  "(getLatestLocationForPartner d tie p = None \<longleftrightarrow>
      p \<notin> set (map loc_deliveryPartnerId (locationUpdates d))) \<and>
   (\<forall>u. getLatestLocationForPartner d tie p = Some u \<longrightarrow>
      u \<in> set (locationUpdates d) \<and> loc_deliveryPartnerId u = p \<and>
      (\<forall>v \<in> set (locationUpdates d). loc_deliveryPartnerId v = p \<longrightarrow> timestamp v \<le> timestamp u)) \<and>
   map_option timestamp (getLatestLocationForPartner d tie p) =
     map_option timestamp
       (case getLocationHistory d tie' p None of [] \<Rightarrow> None | u # _ \<Rightarrow> Some u) \<and>
   (length (greatest_samples d p) \<le> 1 \<longrightarrow>
      getLatestLocationForPartner d tie p =
        (case getLocationHistory d tie' p None of [] \<Rightarrow> None | u # _ \<Rightarrow> Some u)) \<and>
   (p \<in> set (map loc_deliveryPartnerId (locationUpdates d)) \<longrightarrow>
      getLatestLocationForPartner (exec d ops) tie p \<noteq> None) \<and>
   (\<forall>u now row d'. createLocationUpdate d u now = Inr (row, d') \<longrightarrow>
      getLatestLocationForPartner d' tie (ins_deliveryPartnerId u) \<noteq> None)"
proof -
  let ?rows = "filter (\<lambda>u. loc_deliveryPartnerId u = p) (locationUpdates d)"
  have greatest: "\<forall>u. getLatestLocationForPartner d tie p = Some u \<longrightarrow>
      u \<in> set (locationUpdates d) \<and> loc_deliveryPartnerId u = p \<and>
      (\<forall>v \<in> set (locationUpdates d). loc_deliveryPartnerId v = p \<longrightarrow> timestamp v \<le> timestamp u)"
  proof (intro allI impI)
    fix u assume "getLatestLocationForPartner d tie p = Some u"
    then obtain rest where h: "order_by_desc tie timestamp ?rows = u # rest"
      by (cases "order_by_desc tie timestamp ?rows") (simp_all add: latest_head)
    from order_by_desc_head [OF h]
    show "u \<in> set (locationUpdates d) \<and> loc_deliveryPartnerId u = p \<and>
      (\<forall>v \<in> set (locationUpdates d). loc_deliveryPartnerId v = p \<longrightarrow> timestamp v \<le> timestamp u)"
      by simp
  qed
  have key: "map_option timestamp (getLatestLocationForPartner d tie p) =
     map_option timestamp
       (case getLocationHistory d tie' p None of [] \<Rightarrow> None | u # _ \<Rightarrow> Some u)"
    unfolding latest_head history_no_filter by (rule heads_same_key)
  have single: "length (greatest_samples d p) \<le> 1 \<longrightarrow>
      getLatestLocationForPartner d tie p =
        (case getLocationHistory d tie' p None of [] \<Rightarrow> None | u # _ \<Rightarrow> Some u)"
  proof
    assume "length (greatest_samples d p) \<le> 1"
    then have "length (filter (\<lambda>u. list_all (\<lambda>v. timestamp v \<le> timestamp u) ?rows) ?rows) \<le> 1"
      by (simp add: greatest_samples_def)
    then show "getLatestLocationForPartner d tie p =
        (case getLocationHistory d tie' p None of [] \<Rightarrow> None | u # _ \<Rightarrow> Some u)"
      unfolding latest_head history_no_filter by (rule heads_agree)
  qed
  have kept: "p \<in> set (map loc_deliveryPartnerId (locationUpdates d)) \<longrightarrow>
      getLatestLocationForPartner (exec d ops) tie p \<noteq> None"
  proof
    assume a: "p \<in> set (map loc_deliveryPartnerId (locationUpdates d))"
    obtain ys where "locationUpdates (exec d ops) = locationUpdates d @ ys"
      using locationUpdates_exec by blast
    with a have "p \<in> set (map loc_deliveryPartnerId (locationUpdates (exec d ops)))" by simp
    then show "getLatestLocationForPartner (exec d ops) tie p \<noteq> None"
      by (simp only: latest_None_iff not_not)
  qed
  have recorded: "\<forall>u now row d'. createLocationUpdate d u now = Inr (row, d') \<longrightarrow>
      getLatestLocationForPartner d' tie (ins_deliveryPartnerId u) \<noteq> None"
  proof (intro allI impI)
    fix u now row d' assume "createLocationUpdate d u now = Inr (row, d')"
    then have "ins_deliveryPartnerId u \<in> set (map loc_deliveryPartnerId (locationUpdates d'))"
      by (rule createLocationUpdate_recorded)
    then show "getLatestLocationForPartner d' tie (ins_deliveryPartnerId u) \<noteq> None"
      by (simp only: latest_None_iff not_not)
  qed
  from latest_None_iff [of d tie p] greatest key single kept recorded show ?thesis by blast
qed

theorem getLatestLocationForPartner_greatest_witness:
  "getLatestLocationForPartner ex_track ties_in_table_order 1 =
     Some (ex_sample 3 1 (Some 1) 7010) \<and>
   ex_sample 2 1 None 7005 \<in> set (locationUpdates ex_track) \<and>
   loc_deliveryPartnerId (ex_sample 2 1 None 7005) = 1 \<and>
   timestamp (ex_sample 2 1 None 7005) \<le> timestamp (ex_sample 3 1 (Some 1) 7010) \<and>
   length (greatest_samples ex_track 1) \<le> 1 \<and>
   getLatestLocationForPartner ex_track ties_in_table_order 1 =
     (case getLocationHistory ex_track ties_reversed 1 None of
        [] \<Rightarrow> None | u # _ \<Rightarrow> Some u) \<and>
   1 \<in> set (map loc_deliveryPartnerId (locationUpdates ex_track)) \<and>
   getLatestLocationForPartner
     (exec ex_track [CreateLocationUpdate (ex_position 2 None) 7030,
                     UpdateDeliveryPartnerStatus 1 False]) ties_in_table_order 1 \<noteq> None \<and>
   3 \<notin> set (map loc_deliveryPartnerId (locationUpdates ex_track)) \<and>
   getLatestLocationForPartner ex_track ties_in_table_order 3 = None \<and>
   (\<exists>row d'. createLocationUpdate (ex_loc_db []) (ex_position 1 None) 7030 = Inr (row, d') \<and>
             getLatestLocationForPartner d' ties_in_table_order 1 \<noteq> None)"
proof -
  have l: "getLatestLocationForPartner ex_track ties_in_table_order 1 =
     Some (ex_sample 3 1 (Some 1) 7010)"
    by (simp add: loc_defs ex_defs)
  have v: "ex_sample 2 1 None 7005 \<in> set (locationUpdates ex_track)"
    by (simp add: loc_defs ex_defs)
  have pv: "loc_deliveryPartnerId (ex_sample 2 1 None 7005) = 1"
    by (simp add: ex_sample_def)
  have g: "length (greatest_samples ex_track 1) \<le> 1"
    by (simp add: greatest_samples_def loc_defs ex_defs)
  have m: "1 \<in> set (map loc_deliveryPartnerId (locationUpdates ex_track))"
    by (simp add: loc_defs ex_defs)
  have n: "3 \<notin> set (map loc_deliveryPartnerId (locationUpdates ex_track))"
    by (simp add: loc_defs ex_defs)
  note t1 = getLatestLocationForPartner_greatest
     [of ex_track ties_in_table_order 1 ties_reversed
         "[CreateLocationUpdate (ex_position 2 None) 7030,
           UpdateDeliveryPartnerStatus 1 False]"]
  from t1 l v pv have le: "timestamp (ex_sample 2 1 None 7005) \<le>
     timestamp (ex_sample 3 1 (Some 1) 7010)" by blast
  from t1 g have hd: "getLatestLocationForPartner ex_track ties_in_table_order 1 =
     (case getLocationHistory ex_track ties_reversed 1 None of
        [] \<Rightarrow> None | u # _ \<Rightarrow> Some u)" by blast
  from t1 m have k: "getLatestLocationForPartner
     (exec ex_track [CreateLocationUpdate (ex_position 2 None) 7030,
                     UpdateDeliveryPartnerStatus 1 False]) ties_in_table_order 1 \<noteq> None"
    by blast
  from getLatestLocationForPartner_greatest
         [of ex_track ties_in_table_order 3 ties_reversed "[]"] n
  have z: "getLatestLocationForPartner ex_track ties_in_table_order 3 = None" by blast
  have "\<exists>r. createLocationUpdate (ex_loc_db []) (ex_position 1 None) 7030 = Inr r"
    by (simp add: createLocationUpdate_def insert_location_update_def Let_def
          pg_decimal_40 pg_decimal_m74 loc_defs ex_defs)
  then obtain row d' where c:
    "createLocationUpdate (ex_loc_db []) (ex_position 1 None) 7030 = Inr (row, d')"
    by (metis surj_pair)
  with getLatestLocationForPartner_greatest
         [of "ex_loc_db []" ties_in_table_order "ins_deliveryPartnerId (ex_position 1 None)"
             ties_reversed "[]"]
  have "getLatestLocationForPartner d' ties_in_table_order
          (ins_deliveryPartnerId (ex_position 1 None)) \<noteq> None" by blast
  then have "getLatestLocationForPartner d' ties_in_table_order 1 \<noteq> None"
    by (simp add: ex_position_def)
  with c have r: "\<exists>row d'. createLocationUpdate (ex_loc_db []) (ex_position 1 None) 7030 =
       Inr (row, d') \<and> getLatestLocationForPartner d' ties_in_table_order 1 \<noteq> None"
    by blast
  from l v pv le g hd m k n z r show ?thesis by blast
qed

text \<open>
  Two samples of partner 1 with the same timestamp (the database of the two writes at one
  clock reading): the latest-location query run by an engine that keeps equal timestamps
  in table order returns sample 1, the history query run by one that reverses them starts
  with sample 2.
\<close>

theorem getLatestLocationForPartner_tie_cex:
  "exec (ex_loc_db [])
     [CreateLocationUpdate (ex_position 1 (Some 1)) 7001,
      CreateLocationUpdate (ex_position 1 (Some 1)) 7001] = ex_tied \<and>
   getLatestLocationForPartner ex_tied ties_in_table_order 1 =
     Some (ex_sample 1 1 (Some 1) 7001) \<and>
   getLocationHistory ex_tied ties_reversed 1 None =
     [ex_sample 2 1 (Some 1) 7001, ex_sample 1 1 (Some 1) 7001] \<and>
   getLatestLocationForPartner ex_tied ties_in_table_order 1 \<noteq>
     (case getLocationHistory ex_tied ties_reversed 1 None of
        [] \<Rightarrow> None | u # _ \<Rightarrow> Some u)"
  by (simp add: exec_def createLocationUpdate_def insert_location_update_def Let_def
        pg_decimal_40 pg_decimal_m74 loc_defs ex_defs)

section \<open>Order numbers\<close>

lemma find_append:
  "find P (xs @ ys) = (case find P xs of None \<Rightarrow> find P ys | Some x \<Rightarrow> Some x)"
  by (induction xs) auto

lemma find_None_iff_set: "find P xs = None \<longleftrightarrow> (\<forall>x \<in> set xs. \<not> P x)"
  by (induction xs) auto

lemma createOrder_Inr:
  assumes "createOrder d ins now_ms t_upd t_db = Inr (od, d')"
  shows "orders d' = orders d @ [od]" and "orders_id_seq d' = Suc (orders_id_seq d)"
    and "order_id od = Suc (orders_id_seq d)"
    and "orderNumber od = ''ORD-'' @ show_nat now_ms"
    and "orderNumber od \<notin> set (map orderNumber (orders d))"
    and "locationUpdates d' = locationUpdates d"
  using assms
  by (auto simp: createOrder_def insert_order_def Let_def split: if_splits)

lemma createOrder_inv:
  assumes "orders_inv d" and "createOrder d ins now_ms t_upd t_db = Inr (od, d')"
  shows "orders_inv d'"
proof -
  note c = createOrder_Inr [OF assms(2)]
  from assms(1) have "list_all (\<lambda>x. order_id x \<le> orders_id_seq d) (orders d)"
    by (simp add: orders_inv_def)
  then have bound: "\<forall>x \<in> set (orders d). order_id x \<le> orders_id_seq d"
    by (simp add: list_all_iff)
  then have fresh: "order_id od \<notin> set (map order_id (orders d))"
    using c(3) by auto
  from bound have "\<forall>x \<in> set (orders d). order_id x \<le> Suc (orders_id_seq d)"
    by auto
  with assms(1) c fresh show ?thesis
    by (simp add: orders_inv_def list_all_iff)
qed

lemma update_orders_where_id_inv:
  assumes "\<And>od. order_id (f od) = order_id od" and "\<And>od. orderNumber (f od) = orderNumber od"
    and "orders_inv d"
  shows "orders_inv (update_orders_where_id i f d)"
proof -
  let ?g = "\<lambda>od. if order_id od = i then f od else od"
  have n: "map orderNumber (map ?g (orders d)) = map orderNumber (orders d)"
    using assms(2) by (induction "orders d") (auto simp: comp_def)
  have m: "map order_id (map ?g (orders d)) = map order_id (orders d)"
    using assms(1) by (simp add: comp_def)
  have b: "list_all (\<lambda>od. order_id od \<le> orders_id_seq d) (map ?g (orders d)) =
           list_all (\<lambda>od. order_id od \<le> orders_id_seq d) (orders d)"
  proof -
    have "\<And>od. order_id (?g od) = order_id od" using assms(1) by simp
    then show ?thesis by (simp add: list.pred_map comp_def)
  qed
  have o: "orders (update_orders_where_id i f d) = map ?g (orders d)"
    by (simp add: update_orders_where_id_def)
  have q: "orders_id_seq (update_orders_where_id i f d) = orders_id_seq d"
    by (simp add: update_orders_where_id_def)
  from assms(3) show ?thesis
    by (simp only: orders_inv_def o q n m b simp_thms)
qed


lemma apply_op_inv: "orders_inv d \<Longrightarrow> orders_inv (apply_op d op)"
proof (cases op)
  case (CreateOrder ins a b c)
  assume inv: "orders_inv d"
  show ?thesis
  proof (cases "createOrder d ins a b c")
    case (Inl e)
    with CreateOrder inv show ?thesis by simp
  next
    case (Inr r)
    obtain od d' where r: "r = (od, d')" by (cases r)
    from createOrder_inv [OF inv Inr [unfolded r]] CreateOrder Inr r show ?thesis by simp
  qed
next
  case (UpdateOrderStatus i st t_upd t_del)
  assume "orders_inv d"
  then show ?thesis
    using UpdateOrderStatus
    by (simp add: updateOrderStatus_row update_orders_where_id_inv)
next
  case (AssignDeliveryPartner i p t_est t_upd)
  assume "orders_inv d"
  then show ?thesis
    using AssignDeliveryPartner
    by (simp add: assignDeliveryPartner_row update_orders_where_id_inv)
next
  case (UpdateDeliveryPartnerLocation p lat lon now)
  assume "orders_inv d"
  then show ?thesis
    using UpdateDeliveryPartnerLocation
    by (auto simp: updateDeliveryPartnerLocation_def orders_inv_def split: sum.splits)
next
  case (UpdateDeliveryPartnerStatus p online)
  assume "orders_inv d"
  then show ?thesis
    using UpdateDeliveryPartnerStatus
    by (simp add: updateDeliveryPartnerStatus_def orders_inv_def)
next
  case (CreateLocationUpdate u now)
  assume "orders_inv d"
  then show ?thesis
    using CreateLocationUpdate
    by (auto simp: createLocationUpdate_def insert_location_update_def Let_def orders_inv_def
             split: sum.splits if_splits)
qed

lemma exec_Cons: "exec d (op # ops) = exec (apply_op d op) ops"
  by (simp add: exec_def)

lemma exec_inv: "orders_inv d \<Longrightarrow> orders_inv (exec d ops)"
proof (induction ops arbitrary: d)
  case Nil
  then show ?case by (simp add: exec_def)
next
  case (Cons op ops)
  from Cons.prems have "orders_inv (apply_op d op)" by (rule apply_op_inv)
  then have "orders_inv (exec (apply_op d op) ops)" by (rule Cons.IH)
  then show ?case by (simp add: exec_Cons)
qed

lemma getOrder_append:
  "orders d' = orders d @ ys \<Longrightarrow> getOrder d i = Some od \<Longrightarrow> getOrder d' i = Some od"
  by (simp add: getOrder_def find_append)

lemma apply_op_stable:
  assumes "getOrder d i = Some od"
  shows "\<exists>od'. getOrder (apply_op d op) i = Some od' \<and> orderNumber od' = orderNumber od"
proof (cases op)
  case (CreateOrder ins a b c)
  show ?thesis
  proof (cases "createOrder d ins a b c")
    case (Inl e)
    with CreateOrder assms show ?thesis by simp
  next
    case (Inr r)
    obtain od1 d' where r: "r = (od1, d')" by (cases r)
    from createOrder_Inr(1) [OF Inr [unfolded r]] assms
    have "getOrder d' i = Some od" by (rule getOrder_append)
    with CreateOrder Inr r show ?thesis by simp
  qed
next
  case (UpdateOrderStatus j st t_upd t_del)
  with assms show ?thesis
    by (simp add: getOrder_updateOrderStatus)
next
  case (AssignDeliveryPartner j p t_est t_upd)
  with assms show ?thesis
    by (simp add: getOrder_assignDeliveryPartner)
next
  case (UpdateDeliveryPartnerLocation p lat lon now)
  with assms show ?thesis
    by (auto simp: updateDeliveryPartnerLocation_def getOrder_def split: sum.splits)
next
  case (UpdateDeliveryPartnerStatus p online)
  with assms show ?thesis
    by (simp add: updateDeliveryPartnerStatus_def getOrder_def)
next
  case (CreateLocationUpdate u now)
  with assms show ?thesis
    by (auto simp: createLocationUpdate_def insert_location_update_def Let_def getOrder_def
             split: sum.splits if_splits)
qed

lemma exec_stable:
  "getOrder d i = Some od \<Longrightarrow>
   \<exists>od'. getOrder (exec d ops) i = Some od' \<and> orderNumber od' = orderNumber od"
proof (induction ops arbitrary: d od)
  case Nil
  then show ?case by (simp add: exec_def)
next
  case (Cons op ops)
  from apply_op_stable [OF Cons.prems, of op]
  obtain od1 where a: "getOrder (apply_op d op) i = Some od1"
    and n1: "orderNumber od1 = orderNumber od" by blast
  from Cons.IH [OF a]
  obtain od2 where "getOrder (exec (apply_op d op) ops) i = Some od2"
    and "orderNumber od2 = orderNumber od1" by blast
  with n1 show ?case by (simp add: exec_Cons)
qed

text \<open>
  C5. After any sequence of storage writes that starts from a database without orders,
  no two orders share an order number, no order number is empty and ids are pairwise
  different; an order that \<open>createOrder\<close> creates carries the number made from
  \<open>Date.now()\<close>, which no earlier order has, and is read back under its id; and the
  order number read for an id stays the same after any further writes.
\<close>

theorem order_numbers_unique_and_stable:
  assumes "orders d0 = []"
  shows "distinct (map orderNumber (orders (exec d0 ops))) \<and>
         [] \<notin> set (map orderNumber (orders (exec d0 ops))) \<and>
         distinct (map order_id (orders (exec d0 ops))) \<and>
         (\<forall>ins now_ms t_upd t_db od d'.
            createOrder (exec d0 ops) ins now_ms t_upd t_db = Inr (od, d') \<longrightarrow>
              orderNumber od = ''ORD-'' @ show_nat now_ms \<and>
              orderNumber od \<notin> set (map orderNumber (orders (exec d0 ops))) \<and>
              getOrder d' (order_id od) = Some od) \<and>
         (\<forall>i od. getOrder (exec d0 ops) i = Some od \<longrightarrow>
            map_option orderNumber (getOrder (exec (exec d0 ops) ops') i) =
              Some (orderNumber od))"
proof -
  let ?d = "exec d0 ops"
  from assms have "orders_inv d0" by (simp add: orders_inv_def)
  then have inv: "orders_inv ?d" by (rule exec_inv)
  have created: "\<forall>ins now_ms t_upd t_db od d'.
            createOrder ?d ins now_ms t_upd t_db = Inr (od, d') \<longrightarrow>
              orderNumber od = ''ORD-'' @ show_nat now_ms \<and>
              orderNumber od \<notin> set (map orderNumber (orders ?d)) \<and>
              getOrder d' (order_id od) = Some od"
  proof (intro allI impI)
    fix ins now_ms t_upd t_db od d'
    assume c: "createOrder ?d ins now_ms t_upd t_db = Inr (od, d')"
    note f = createOrder_Inr [OF c]
    from inv have "\<forall>x \<in> set (orders ?d). order_id x \<le> orders_id_seq ?d"
      by (simp add: orders_inv_def list_all_iff)
    with f(3) have "\<forall>x \<in> set (orders ?d). order_id x \<noteq> order_id od" by auto
    then have "find (\<lambda>x. order_id x = order_id od) (orders ?d) = None"
      by (simp add: find_None_iff_set)
    with f(1) have "getOrder d' (order_id od) = Some od"
      by (simp add: getOrder_def find_append)
    with f show "orderNumber od = ''ORD-'' @ show_nat now_ms \<and>
              orderNumber od \<notin> set (map orderNumber (orders ?d)) \<and>
              getOrder d' (order_id od) = Some od" by simp
  qed
  have stable: "\<forall>i od. getOrder ?d i = Some od \<longrightarrow>
            map_option orderNumber (getOrder (exec ?d ops') i) = Some (orderNumber od)"
  proof (intro allI impI)
    fix i od assume "getOrder ?d i = Some od"
    from exec_stable [OF this, of ops']
    show "map_option orderNumber (getOrder (exec ?d ops') i) = Some (orderNumber od)" by auto
  qed
  from inv have a: "distinct (map orderNumber (orders ?d))"
    and b: "[] \<notin> set (map orderNumber (orders ?d))"
    and c: "distinct (map order_id (orders ?d))"
    unfolding orders_inv_def by blast+
  from a b c created stable show ?thesis by blast
qed

lemma show_nat_000: "show_nat 1700000000000 = ''1700000000000''"
  by (simp add: show_nat.simps digit_char_def)

lemma show_nat_001: "show_nat 1700000000001 = ''1700000000001''"
  by (simp add: show_nat.simps digit_char_def)

lemma show_nat_002: "show_nat 1700000000002 = ''1700000000002''"
  by (simp add: show_nat.simps digit_char_def)

lemmas order_defs = createOrder_def insert_order_def Let_def ex_insert_def ex_orders_db_def
  ex_created_def show_nat_000 show_nat_001 show_nat_002

lemma ex_create_first:
  "createOrder (ex_orders_db [] 0) ex_insert 1700000000000 8000 8001 =
     Inr (ex_created 1 ''ORD-1700000000000'' 8000 8001,
          ex_orders_db [ex_created 1 ''ORD-1700000000000'' 8000 8001] 1)"
  by (simp add: order_defs ex_defs)

lemma ex_create_duplicate:
  "createOrder (ex_orders_db [ex_created 1 ''ORD-1700000000000'' 8000 8001] 1)
       ex_insert 1700000000000 8002 8003 = Inl UniqueViolation"
  by (simp add: order_defs ex_defs)

lemma ex_create_second:
  "createOrder (ex_orders_db [ex_created 1 ''ORD-1700000000000'' 8000 8001] 1)
       ex_insert 1700000000001 8004 8005 =
     Inr (ex_created 2 ''ORD-1700000000001'' 8004 8005,
          ex_orders_db [ex_created 1 ''ORD-1700000000000'' 8000 8001,
                        ex_created 2 ''ORD-1700000000001'' 8004 8005] 2)"
  by (simp add: order_defs ex_defs)

lemma ex_create_third:
  "createOrder (ex_orders_db [ex_created 1 ''ORD-1700000000000'' 8000 8001,
                        ex_created 2 ''ORD-1700000000001'' 8004 8005] 2)
       ex_insert 1700000000002 8010 8011 =
     Inr (ex_created 3 ''ORD-1700000000002'' 8010 8011,
          ex_orders_db [ex_created 1 ''ORD-1700000000000'' 8000 8001,
                        ex_created 2 ''ORD-1700000000001'' 8004 8005,
                        ex_created 3 ''ORD-1700000000002'' 8010 8011] 3)"
  by (simp add: order_defs ex_defs)

lemma ex_writes_run:
  "exec (ex_orders_db [] 0) ex_writes =
     ex_orders_db [ex_created 1 ''ORD-1700000000000'' 8000 8001,
                   ex_created 2 ''ORD-1700000000001'' 8004 8005] 2"
  by (simp only: exec_def ex_writes_def foldl.simps apply_op.simps ex_create_first
        ex_create_duplicate ex_create_second sum.case prod.case)

text \<open>
  A run from the database without orders: the second \<open>createOrder\<close> draws the number of
  the first (the same millisecond) and is refused by the unique constraint; the orders
  that exist carry different numbers, and order 1 keeps its number through later writes.
\<close>

theorem order_numbers_unique_and_stable_witness:
  "orders (ex_orders_db [] 0) = [] \<and>
   createOrder (exec (ex_orders_db [] 0) [CreateOrder ex_insert 1700000000000 8000 8001])
       ex_insert 1700000000000 8002 8003 = Inl UniqueViolation \<and>
   map orderNumber (orders (exec (ex_orders_db [] 0) ex_writes)) =
     [''ORD-1700000000000'', ''ORD-1700000000001''] \<and>
   distinct (map orderNumber (orders (exec (ex_orders_db [] 0) ex_writes))) \<and>
   (\<exists>od d'. createOrder (exec (ex_orders_db [] 0) ex_writes) ex_insert 1700000000002 8010 8011 =
               Inr (od, d') \<and>
            orderNumber od = ''ORD-1700000000002'' \<and>
            getOrder d' (order_id od) = Some od) \<and>
   getOrder (exec (ex_orders_db [] 0) ex_writes) 1 =
     Some (ex_created 1 ''ORD-1700000000000'' 8000 8001) \<and>
   map_option orderNumber
     (getOrder (exec (exec (ex_orders_db [] 0) ex_writes)
                  [UpdateOrderStatus 1 ''cancelled'' 8012 8013,
                   AssignDeliveryPartner 1 2 8014 8015]) 1) =
     Some ''ORD-1700000000000''"
proof -
  have e: "orders (ex_orders_db [] 0) = []"
    by (simp add: ex_orders_db_def)
  have dup: "createOrder (exec (ex_orders_db [] 0) [CreateOrder ex_insert 1700000000000 8000 8001])
       ex_insert 1700000000000 8002 8003 = Inl UniqueViolation"
    by (simp only: exec_def foldl.simps apply_op.simps ex_create_first ex_create_duplicate
          sum.case prod.case)
  have nums: "map orderNumber (orders (exec (ex_orders_db [] 0) ex_writes)) =
     [''ORD-1700000000000'', ''ORD-1700000000001'']"
    by (subst ex_writes_run) (simp add: ex_orders_db_def ex_created_def)
  note t = order_numbers_unique_and_stable [OF e, of ex_writes
     "[UpdateOrderStatus 1 ''cancelled'' 8012 8013, AssignDeliveryPartner 1 2 8014 8015]"]
  from t have dist: "distinct (map orderNumber (orders (exec (ex_orders_db [] 0) ex_writes)))"
    by blast
  have c: "createOrder (exec (ex_orders_db [] 0) ex_writes) ex_insert 1700000000002 8010 8011 =
     Inr (ex_created 3 ''ORD-1700000000002'' 8010 8011,
          ex_orders_db [ex_created 1 ''ORD-1700000000000'' 8000 8001,
                        ex_created 2 ''ORD-1700000000001'' 8004 8005,
                        ex_created 3 ''ORD-1700000000002'' 8010 8011] 3)"
    by (simp only: ex_writes_run ex_create_third)
  with t have "orderNumber (ex_created 3 ''ORD-1700000000002'' 8010 8011) =
       ''ORD-'' @ show_nat 1700000000002 \<and>
     getOrder (ex_orders_db [ex_created 1 ''ORD-1700000000000'' 8000 8001,
                        ex_created 2 ''ORD-1700000000001'' 8004 8005,
                        ex_created 3 ''ORD-1700000000002'' 8010 8011] 3)
       (order_id (ex_created 3 ''ORD-1700000000002'' 8010 8011)) =
     Some (ex_created 3 ''ORD-1700000000002'' 8010 8011)" by blast
  with c have new: "\<exists>od d'. createOrder (exec (ex_orders_db [] 0) ex_writes) ex_insert 1700000000002 8010 8011 =
               Inr (od, d') \<and>
            orderNumber od = ''ORD-1700000000002'' \<and>
            getOrder d' (order_id od) = Some od"
    by (auto simp: show_nat_002)
  have g: "getOrder (exec (ex_orders_db [] 0) ex_writes) 1 =
     Some (ex_created 1 ''ORD-1700000000000'' 8000 8001)"
    by (subst ex_writes_run) (simp add: getOrder_def ex_orders_db_def ex_created_def)
  have n1: "orderNumber (ex_created 1 ''ORD-1700000000000'' 8000 8001) = ''ORD-1700000000000''"
    by (simp add: ex_created_def)
  from t g have "map_option orderNumber
     (getOrder (exec (exec (ex_orders_db [] 0) ex_writes)
                  [UpdateOrderStatus 1 ''cancelled'' 8012 8013,
                   AssignDeliveryPartner 1 2 8014 8015]) 1) =
     Some (orderNumber (ex_created 1 ''ORD-1700000000000'' 8000 8001))" by blast
  with n1 have after: "map_option orderNumber
     (getOrder (exec (exec (ex_orders_db [] 0) ex_writes)
                  [UpdateOrderStatus 1 ''cancelled'' 8012 8013,
                   AssignDeliveryPartner 1 2 8014 8015]) 1) =
     Some ''ORD-1700000000000''" by simp
  from e dup nums dist new g after show ?thesis by blast
qed


end
